theory Spec2Isabelle
  imports Main "HOL-Library.Word"
begin

section \<open>JavaScript values as delivered by JSON.parse\<close>

text \<open>
  Both sockets deliver text frames that the handlers of \<^verbatim>\<open>outbound.js\<close> pass to
  \<^verbatim>\<open>JSON.parse\<close>. A frame is either rejected by the parser (a SyntaxError, caught by the
  handler's own try/catch) or yields a JavaScript value. Objects are association lists
  (the first binding of a key is the property), numbers are integers (the handlers only
  test a number for being zero and pass it on).
\<close>

datatype jsval =
    JNull
  | JUndefined
  | JBool bool
  | JNum int
  | JStr string
  | JArr "jsval list"
  | JObj "(string \<times> jsval) list"

datatype frame = Malformed | Json jsval

text \<open>JavaScript truthiness, as tested by \<^verbatim>\<open>if (x)\<close> and \<^verbatim>\<open>x || y\<close>.\<close>

fun truthy :: "jsval \<Rightarrow> bool" where
  "truthy JNull = False"
| "truthy JUndefined = False"
| "truthy (JBool b) = b"
| "truthy (JNum n) = (n \<noteq> 0)"
| "truthy (JStr s) = (s \<noteq> [])"
| "truthy (JArr xs) = True"
| "truthy (JObj kvs) = True"

fun nullish :: "jsval \<Rightarrow> bool" where
  "nullish JNull = True"
| "nullish JUndefined = True"
| "nullish v = False"

text \<open>
  Reading a property of a value that is neither null nor undefined. None of the keys the
  handlers read (type, audio, chunk, event, start, \<dots>) is a built-in property of a
  string, number, boolean or array, so on those the result is undefined.
\<close>

fun jsprop :: "jsval \<Rightarrow> string \<Rightarrow> jsval" where
  "jsprop (JObj kvs) k = (case map_of kvs k of Some v \<Rightarrow> v | None \<Rightarrow> JUndefined)"
| "jsprop v k = JUndefined"

text \<open>\<^verbatim>\<open>v.k\<close>: a TypeError (here \<open>None\<close>) when \<open>v\<close> is null or undefined.\<close>

definition getp :: "jsval \<Rightarrow> string \<Rightarrow> jsval option" where
  "getp v k = (if nullish v then None else Some (jsprop v k))"

text \<open>\<^verbatim>\<open>v?.k\<close>: undefined when \<open>v\<close> is null or undefined.\<close>

definition optp :: "jsval \<Rightarrow> string \<Rightarrow> jsval" where
  "optp v k = (if nullish v then JUndefined else jsprop v k)"

text \<open>\<^verbatim>\<open>a || b\<close>\<close>

definition js_or :: "jsval \<Rightarrow> jsval \<Rightarrow> jsval" where
  "js_or a b = (if truthy a then a else b)"

text \<open>
  Interpolating a value into a template literal converts it to a string. For a value that
  came out of JSON.parse this raises a TypeError exactly when an object on the way has an
  own property \<^verbatim>\<open>toString\<close> (which is then not callable); arrays convert their
  elements, skipping null and undefined.
\<close>

fun toStringThrows :: "jsval \<Rightarrow> bool" where
  "toStringThrows (JObj kvs) = (''toString'' \<in> fst ` set kvs)"
| "toStringThrows (JArr xs) = (\<exists>x \<in> set xs. toStringThrows x)"
| "toStringThrows v = False"

section \<open>Base64 as Node's Buffer reads and writes it\<close>

type_synonym byte = "8 word"

definition b64chars :: string where
  "b64chars = ''ABCDEFGHIJKLMNOPQRSTUVWXYZabcdefghijklmnopqrstuvwxyz0123456789+/''"

definition enc :: "nat \<Rightarrow> char" where
  "enc n = b64chars ! n"

text \<open>\<^verbatim>\<open>buf.toString("base64")\<close>: RFC 4648 with the standard alphabet and padding.\<close>

fun b64encode :: "byte list \<Rightarrow> string" where
  "b64encode [] = []"
| "b64encode [a] =
     (let n = unat a * 65536
      in [enc (n div 262144), enc (n div 4096 mod 64), CHR ''='', CHR ''=''])"
| "b64encode [a, b] =
     (let n = unat a * 65536 + unat b * 256
      in [enc (n div 262144), enc (n div 4096 mod 64), enc (n div 64 mod 64), CHR ''=''])"
| "b64encode (a # b # c # bs) =
     (let n = unat a * 65536 + unat b * 256 + unat c
      in [enc (n div 262144), enc (n div 4096 mod 64), enc (n div 64 mod 64), enc (n mod 64)])
     @ b64encode bs"

fun index_of :: "'a \<Rightarrow> 'a list \<Rightarrow> nat option" where
  "index_of x [] = None"
| "index_of x (y # ys) = (if x = y then Some 0 else map_option Suc (index_of x ys))"

text \<open>
  The decoder's table: the standard alphabet, and the URL-safe \<^verbatim>\<open>-\<close> and \<^verbatim>\<open>_\<close>
  as 62 and 63. Every other character has no value.
\<close>

definition unbase64 :: "char \<Rightarrow> nat option" where
  "unbase64 c =
     (if c = CHR ''-'' then Some 62
      else if c = CHR ''_'' then Some 63
      else index_of c b64chars)"

fun dec :: "nat list \<Rightarrow> byte list" where
  "dec (a # b # c # d # r) =
     (let n = a * 262144 + b * 4096 + c * 64 + d
      in [of_nat (n div 65536), of_nat (n div 256 mod 256), of_nat (n mod 256)]) @ dec r"
| "dec [a, b, c] =
     (let n = a * 4096 + b * 64 + c
      in [of_nat (n div 1024), of_nat (n div 4 mod 256)])"
| "dec [a, b] = [of_nat ((a * 64 + b) div 16)]"
| "dec r = []"

text \<open>
  \<^verbatim>\<open>Buffer.from(s, "base64")\<close> is lenient: it stops at the first \<^verbatim>\<open>=\<close>, skips
  every character without a value (white space included), and decodes the remaining
  six-bit digits four at a time; a trailing group of two or three digits gives one or two
  bytes and its spare bits are ignored.
\<close>

definition sextets :: "string \<Rightarrow> nat list" where
  "sextets s = List.map_filter unbase64 (takeWhile (\<lambda>c. c \<noteq> CHR ''='') s)"

definition b64decode :: "string \<Rightarrow> byte list" where
  "b64decode s = dec (sextets s)"

text \<open>
  \<^verbatim>\<open>Buffer.from(payload, "base64").toString("base64")\<close> of the media case. Buffer.from
  raises a TypeError on a number, a boolean, null and undefined. What it makes of an
  array or an object (array-likes, \<^verbatim>\<open>valueOf\<close>, \<dots>) is Node's business and is
  taken as the parameter \<open>fromObject\<close>.
\<close>

fun reencode :: "(jsval \<Rightarrow> byte list option) \<Rightarrow> jsval \<Rightarrow> string option" where
  "reencode fromObject (JStr p) = Some (b64encode (b64decode p))"
| "reencode fromObject (JArr xs) = map_option b64encode (fromObject (JArr xs))"
| "reencode fromObject (JObj kvs) = map_option b64encode (fromObject (JObj kvs))"
| "reencode fromObject v = None"

section \<open>The relay session of \<^verbatim>\<open>/outbound-media-stream\<close>\<close>

text \<open>The four values of \<^verbatim>\<open>readyState\<close> of a WebSocket.\<close>

datatype readyState = CONNECTING | OPEN | CLOSING | CLOSED

text \<open>
  What a handler does to the outside: frames handed to \<^verbatim>\<open>ws.send\<close> (the telephony
  socket) and \<^verbatim>\<open>elevenLabsWs.send\<close> (the AI socket), each as the object given to
  JSON.stringify; the call \<^verbatim>\<open>elevenLabsWs.close()\<close>; the request for a signed URL and
  the construction of the AI socket; console output, by its fixed text. The handler code
  has no call that closes the telephony socket, so there is no effect for it.
\<close>

datatype effect =
    WsSend jsval
  | ElSend jsval
  | ElCloseCall
  | GetSignedUrl
  | NewWebSocket
  | ConsoleLog string
  | ConsoleError string

text \<open>
  The variables of the connection handler's closure (\<open>streamSid\<close>, \<open>callSid\<close>,
  \<open>elevenLabsWs\<close>, \<open>customParameters\<close>; \<open>elevenLabsWs\<close> is null or a socket, of which
  the handlers read only the readyState), and two facts of the environment: whether the
  promise of \<^verbatim>\<open>getSignedUrl()\<close> is still pending, and the state of the telephony socket.
\<close>

record session =
  streamSid :: jsval
  callSid :: jsval
  elevenLabsWs :: "readyState option"
  customParameters :: jsval
  signedUrlPending :: bool
  twilioWs :: readyState

text \<open>
  Accepting the telephony connection: the variables are null, and \<^verbatim>\<open>setupElevenLabs()\<close>
  is called at once, which suspends in \<^verbatim>\<open>await getSignedUrl()\<close>.
\<close>

definition connection :: "session \<times> effect list" where
  "connection =
     (\<lparr>streamSid = JNull, callSid = JNull, elevenLabsWs = None, customParameters = JNull,
       signedUrlPending = True, twilioWs = OPEN\<rparr>,
      [ConsoleLog ''[Server] Twilio connected to outbound media stream'', GetSignedUrl])"

definition default_prompt :: string where
  "default_prompt = ''you are a gary from the phone store''"

definition default_first_message :: string where
  "default_first_message = ''hey there! how can I help you today?''"

text \<open>The object literal sent on open, for a given prompt and first message.\<close>

definition handshake :: "jsval \<Rightarrow> jsval \<Rightarrow> jsval" where
  "handshake p f =
     JObj [(''type'', JStr ''conversation_initiation_client_data''),
           (''conversation_config_override'',
            JObj [(''agent'',
              JObj [(''prompt'', JObj [(''prompt'', p)]), (''first_message'', f)])])]"

definition initialConfig :: "jsval \<Rightarrow> jsval" where
  "initialConfig params =
     handshake (js_or (optp params ''prompt'') (JStr default_prompt))
               (js_or (optp params ''first_message'') (JStr default_first_message))"

text \<open>\<^verbatim>\<open>elevenLabsWs.on("open", \<dots>)\<close>\<close>

definition elevenLabs_on_open :: "session \<Rightarrow> session \<times> effect list" where
  "elevenLabs_on_open s =
     (s, [ConsoleLog ''[ElevenLabs] Connected to Conversational AI'',
          ConsoleLog ''[ElevenLabs] Sending initial config with prompt:'',
          ElSend (initialConfig (customParameters s))])"

definition media_frame :: "jsval \<Rightarrow> jsval \<Rightarrow> jsval" where
  "media_frame sid payload =
     JObj [(''event'', JStr ''media''), (''streamSid'', sid),
           (''media'', JObj [(''payload'', payload)])]"

definition clear_frame :: "jsval \<Rightarrow> jsval" where
  "clear_frame sid = JObj [(''event'', JStr ''clear''), (''streamSid'', sid)]"

definition pong_frame :: "jsval \<Rightarrow> jsval" where
  "pong_frame eid = JObj [(''type'', JStr ''pong''), (''event_id'', eid)]"

definition el_error :: effect where
  "el_error = ConsoleError ''[ElevenLabs] Error processing message:''"

text \<open>The body of the \<^verbatim>\<open>switch (message.type)\<close> of the AI socket's message handler.\<close>

definition elevenLabs_switch :: "session \<Rightarrow> jsval \<Rightarrow> jsval \<Rightarrow> effect list" where
  "elevenLabs_switch s message t =
     (if t = JStr ''conversation_initiation_metadata'' then
        [ConsoleLog ''[ElevenLabs] Received initiation metadata'']
      else if t = JStr ''audio'' then
        (if truthy (streamSid s) then
           (if truthy (optp (jsprop message ''audio'') ''chunk'') then
              [WsSend (media_frame (streamSid s) (optp (jsprop message ''audio'') ''chunk''))]
            else if truthy (optp (jsprop message ''audio_event'') ''audio_base_64'') then
              [WsSend (media_frame (streamSid s)
                         (optp (jsprop message ''audio_event'') ''audio_base_64''))]
            else [])
         else [ConsoleLog ''[ElevenLabs] Received audio but no StreamSid yet''])
      else if t = JStr ''interruption'' then
        (if truthy (streamSid s) then [WsSend (clear_frame (streamSid s))] else [])
      else if t = JStr ''ping'' then
        (if truthy (optp (jsprop message ''ping_event'') ''event_id'') then
           [ElSend (pong_frame (optp (jsprop message ''ping_event'') ''event_id''))]
         else [])
      else if t = JStr ''agent_response'' then
        (if toStringThrows (optp (jsprop message ''agent_response_event'') ''agent_response'')
         then [el_error] else [ConsoleLog ''[Twilio] Agent response:''])
      else if t = JStr ''user_transcript'' then
        (if toStringThrows (optp (jsprop message ''user_transcription_event'') ''user_transcript'')
         then [el_error] else [ConsoleLog ''[Twilio] User transcript:''])
      else
        (if toStringThrows t then [el_error]
         else [ConsoleLog ''[ElevenLabs] Unhandled message type:'']))"

text \<open>
  \<^verbatim>\<open>elevenLabsWs.on("message", \<dots>)\<close>: JSON.parse, then the switch, all inside one
  try/catch that logs. No branch assigns a variable of the session.
\<close>

definition elevenLabs_on_message :: "session \<Rightarrow> frame \<Rightarrow> session \<times> effect list" where
  "elevenLabs_on_message s data =
     (case data of
        Malformed \<Rightarrow> (s, [el_error])
      | Json message \<Rightarrow>
          (case getp message ''type'' of
             None \<Rightarrow> (s, [el_error])
           | Some t \<Rightarrow> (s, elevenLabs_switch s message t)))"

definition tw_error :: effect where
  "tw_error = ConsoleError ''[Twilio] Error processing message:''"

text \<open>
  \<^verbatim>\<open>if (elevenLabsWs?.readyState === WebSocket.OPEN) elevenLabsWs.close()\<close>; a socket
  whose close has been called is CLOSING until its close event.
\<close>

definition close_if_open :: "session \<Rightarrow> session \<times> effect list" where
  "close_if_open s =
     (if elevenLabsWs s = Some OPEN then (s\<lparr>elevenLabsWs := Some CLOSING\<rparr>, [ElCloseCall])
      else (s, []))"

text \<open>The cases of the \<^verbatim>\<open>switch (msg.event)\<close> of the telephony socket's message handler.\<close>

definition twilio_start :: "session \<Rightarrow> jsval \<Rightarrow> session \<times> effect list" where
  "twilio_start s msg =
     (case getp (jsprop msg ''start'') ''streamSid'' of
        None \<Rightarrow> (s, [tw_error])
      | Some sid \<Rightarrow>
          (let s' = s\<lparr>streamSid := sid,
                      callSid := jsprop (jsprop msg ''start'') ''callSid'',
                      customParameters := jsprop (jsprop msg ''start'') ''customParameters''\<rparr>
           in if toStringThrows (streamSid s') \<or> toStringThrows (callSid s')
              then (s', [tw_error])
              else (s', [ConsoleLog ''[Twilio] Stream started'',
                         ConsoleLog ''[Twilio] Start parameters:''])))"

definition twilio_media ::
  "(jsval \<Rightarrow> byte list option) \<Rightarrow> session \<Rightarrow> jsval \<Rightarrow> session \<times> effect list" where
  "twilio_media fromObject s msg =
     (if elevenLabsWs s = Some OPEN then
        (case getp (jsprop msg ''media'') ''payload'' of
           None \<Rightarrow> (s, [tw_error])
         | Some payload \<Rightarrow>
             (case reencode fromObject payload of
                None \<Rightarrow> (s, [tw_error])
              | Some p \<Rightarrow> (s, [ElSend (JObj [(''user_audio_chunk'', JStr p)])])))
      else (s, []))"

definition twilio_stop :: "session \<Rightarrow> session \<times> effect list" where
  "twilio_stop s =
     (if toStringThrows (streamSid s) then (s, [tw_error])
      else (case close_if_open s of
              (s', fx) \<Rightarrow> (s', ConsoleLog ''[Twilio] Stream ended'' # fx)))"

text \<open>
  \<^verbatim>\<open>ws.on("message", \<dots>)\<close>: JSON.parse, the log of every event that is not media, then
  the switch; one try/catch around all of it.
\<close>

definition twilio_on_message ::
  "(jsval \<Rightarrow> byte list option) \<Rightarrow> session \<Rightarrow> frame \<Rightarrow> session \<times> effect list" where
  "twilio_on_message fromObject s data =
     (case data of
        Malformed \<Rightarrow> (s, [tw_error])
      | Json msg \<Rightarrow>
          (case getp msg ''event'' of
             None \<Rightarrow> (s, [tw_error])
           | Some ev \<Rightarrow>
               if ev = JStr ''media'' then twilio_media fromObject s msg
               else if toStringThrows ev then (s, [tw_error])
               else (case (if ev = JStr ''start'' then twilio_start s msg
                           else if ev = JStr ''stop'' then twilio_stop s
                           else (s, [ConsoleLog ''[Twilio] Unhandled event:'']))
                     of (s', fx) \<Rightarrow> (s', ConsoleLog ''[Twilio] Received event:'' # fx))))"

text \<open>\<^verbatim>\<open>ws.on("close", \<dots>)\<close>\<close>

definition twilio_on_close :: "session \<Rightarrow> session \<times> effect list" where
  "twilio_on_close s =
     (case close_if_open s of
        (s', fx) \<Rightarrow> (s', ConsoleLog ''[Twilio] Client disconnected'' # fx))"

section \<open>Events of the environment\<close>

text \<open>
  The session is driven by what the two sockets and the signed-URL request deliver.
  \<open>step\<close> runs the handler of one event; it is \<open>None\<close> where the event cannot occur:
  the promise of getSignedUrl settles once; a socket emits open once, from CONNECTING;
  a failed connect emits error and close back to back; messages, errors and close come
  from a socket that is OPEN or CLOSING; the telephony socket is open when the handler
  is installed and delivers nothing after its close.
\<close>

datatype event =
    UrlFetched
  | UrlFetchFailed
  | UrlInvalid
  | ElOpen
  | ElConnectFailed
  | ElMessage frame
  | ElError
  | ElClosed
  | TwMessage frame
  | TwError
  | TwClosed

definition el_live :: "session \<Rightarrow> bool" where
  "el_live s = (elevenLabsWs s = Some OPEN \<or> elevenLabsWs s = Some CLOSING)"

fun step ::
  "(jsval \<Rightarrow> byte list option) \<Rightarrow> session \<Rightarrow> event \<Rightarrow> (session \<times> effect list) option" where
  "step B s UrlFetched =
     (if signedUrlPending s
      then Some (s\<lparr>signedUrlPending := False, elevenLabsWs := Some CONNECTING\<rparr>, [NewWebSocket])
      else None)"
| "step B s UrlFetchFailed =
     (if signedUrlPending s
      then Some (s\<lparr>signedUrlPending := False\<rparr>,
                 [ConsoleError ''Error getting signed URL:'',
                  ConsoleError ''[ElevenLabs] Setup error:''])
      else None)"
| "step B s UrlInvalid =
     (if signedUrlPending s
      then Some (s\<lparr>signedUrlPending := False\<rparr>, [ConsoleError ''[ElevenLabs] Setup error:''])
      else None)"
| "step B s ElOpen =
     (if elevenLabsWs s = Some CONNECTING
      then Some (elevenLabs_on_open (s\<lparr>elevenLabsWs := Some OPEN\<rparr>))
      else None)"
| "step B s ElConnectFailed =
     (if elevenLabsWs s = Some CONNECTING
      then Some (s\<lparr>elevenLabsWs := Some CLOSED\<rparr>,
                 [ConsoleError ''[ElevenLabs] WebSocket error:'',
                  ConsoleLog ''[ElevenLabs] Disconnected''])
      else None)"
| "step B s (ElMessage data) =
     (if el_live s then Some (elevenLabs_on_message s data) else None)"
| "step B s ElError =
     (if el_live s
      then Some (s\<lparr>elevenLabsWs := Some CLOSING\<rparr>, [ConsoleError ''[ElevenLabs] WebSocket error:''])
      else None)"
| "step B s ElClosed =
     (if el_live s
      then Some (s\<lparr>elevenLabsWs := Some CLOSED\<rparr>, [ConsoleLog ''[ElevenLabs] Disconnected''])
      else None)"
| "step B s (TwMessage data) =
     (if twilioWs s = OPEN then Some (twilio_on_message B s data) else None)"
| "step B s TwError =
     (if twilioWs s = OPEN then Some (s, [ConsoleError ''[ws] error'']) else None)"
| "step B s TwClosed =
     (if twilioWs s = OPEN then Some (twilio_on_close (s\<lparr>twilioWs := CLOSED\<rparr>)) else None)"

text \<open>A run of the session: the handlers of a sequence of events, effects in order.\<close>

fun run ::
  "(jsval \<Rightarrow> byte list option) \<Rightarrow> session \<Rightarrow> event list \<Rightarrow> (session \<times> effect list) option"
  where
  "run B s [] = Some (s, [])"
| "run B s (e # es) =
     (case step B s e of
        None \<Rightarrow> None
      | Some (s', fx) \<Rightarrow>
          (case run B s' es of
             None \<Rightarrow> None
           | Some (s'', fx') \<Rightarrow> Some (s'', fx @ fx')))"

text \<open>
  The sends to the telephony socket among the effects, and how often the AI socket's close
  was called.
\<close>

fun is_ws_send :: "effect \<Rightarrow> bool" where
  "is_ws_send (WsSend v) = True"
| "is_ws_send e = False"

definition closes :: "effect list \<Rightarrow> nat" where
  "closes fx = length (filter (\<lambda>e. e = ElCloseCall) fx)"

section \<open>Kinds of frames\<close>

text \<open>What the switches of the two message handlers select on.\<close>

definition ping_message :: "jsval \<Rightarrow> bool" where
  "ping_message message = (getp message ''type'' = Some (JStr ''ping''))"

definition ping_id :: "jsval \<Rightarrow> jsval" where
  "ping_id message = optp (jsprop message ''ping_event'') ''event_id''"

definition audio_message :: "jsval \<Rightarrow> bool" where
  "audio_message message = (getp message ''type'' = Some (JStr ''audio''))"

definition interruption_message :: "jsval \<Rightarrow> bool" where
  "interruption_message message = (getp message ''type'' = Some (JStr ''interruption''))"

text \<open>The chunk of an audio message: \<^verbatim>\<open>audio.chunk\<close>, else \<^verbatim>\<open>audio_event.audio_base_64\<close>.\<close>

definition audio_payload :: "jsval \<Rightarrow> jsval" where
  "audio_payload message =
     (if truthy (optp (jsprop message ''audio'') ''chunk'')
      then optp (jsprop message ''audio'') ''chunk''
      else optp (jsprop message ''audio_event'') ''audio_base_64'')"

definition start_event :: "jsval \<Rightarrow> bool" where
  "start_event msg =
     (getp msg ''event'' = Some (JStr ''start'') \<and> \<not> nullish (jsprop msg ''start''))"

definition stop_event :: "jsval \<Rightarrow> bool" where
  "stop_event msg = (getp msg ''event'' = Some (JStr ''stop''))"

definition media_event :: "jsval \<Rightarrow> jsval \<Rightarrow> bool" where
  "media_event msg payload =
     (getp msg ''event'' = Some (JStr ''media'')
      \<and> getp (jsprop msg ''media'') ''payload'' = Some payload)"

fun is_start :: "event \<Rightarrow> bool" where
  "is_start (TwMessage (Json msg)) = (getp msg ''event'' = Some (JStr ''start''))"
| "is_start e = False"

text \<open>The three ways in which the AI socket fails to come up.\<close>

fun setup_failure :: "event \<Rightarrow> bool" where
  "setup_failure UrlFetchFailed = True"
| "setup_failure UrlInvalid = True"
| "setup_failure ElConnectFailed = True"
| "setup_failure e = False"

section \<open>Conditions on sessions and effects used in the proofs\<close>

definition url_settled :: "session \<Rightarrow> bool" where
  "url_settled s = (signedUrlPending s \<longrightarrow> elevenLabsWs s = None)"

definition closed_side :: "session \<Rightarrow> bool" where
  "closed_side s = (\<not> signedUrlPending s \<and>
                    (elevenLabsWs s = Some CLOSING \<or> elevenLabsWs s = Some CLOSED))"

definition el_dead :: "session \<Rightarrow> bool" where
  "el_dead s = (\<not> signedUrlPending s \<and> (elevenLabsWs s = None \<or> elevenLabsWs s = Some CLOSED))"

definition unopened :: "session \<Rightarrow> bool" where
  "unopened s = (elevenLabsWs s = None \<or> elevenLabsWs s = Some CONNECTING)"

definition no_socket_effects :: "effect list \<Rightarrow> bool" where
  "no_socket_effects fx = (GetSignedUrl \<notin> set fx \<and> NewWebSocket \<notin> set fx)"

definition quiet :: "effect list \<Rightarrow> bool" where
  "quiet fx =
     (\<forall>e \<in> set fx. (\<exists>m. e = ConsoleLog m) \<or> (\<exists>m. e = ConsoleError m) \<or> (\<exists>v. e = ElSend v))"

section \<open>Concrete frames and sessions\<close>

text \<open>A Node whose Buffer.from rejects every array and object.\<close>

definition noObjects :: "jsval \<Rightarrow> byte list option" where
  "noObjects v = None"

definition ping_0 :: jsval where
  "ping_0 = JObj [(''type'', JStr ''ping''), (''ping_event'', JObj [(''event_id'', JNum 0)])]"

definition ping_7 :: jsval where
  "ping_7 = JObj [(''type'', JStr ''ping''), (''ping_event'', JObj [(''event_id'', JNum 7)])]"

definition start_MZ1 :: jsval where
  "start_MZ1 =
     JObj [(''event'', JStr ''start''),
           (''start'', JObj [(''streamSid'', JStr ''MZ1''), (''callSid'', JStr ''CA1''),
                             (''customParameters'',
                              JObj [(''prompt'', JStr ''p''), (''first_message'', JStr ''hi'')])])]"

definition stop_frame :: jsval where
  "stop_frame = JObj [(''event'', JStr ''stop'')]"

definition audio_ZGVm :: jsval where
  "audio_ZGVm = JObj [(''type'', JStr ''audio''), (''audio'', JObj [(''chunk'', JStr ''ZGVm'')])]"

definition media_QUJD :: jsval where
  "media_QUJD = JObj [(''event'', JStr ''media''), (''media'', JObj [(''payload'', JStr ''QUJD'')])]"

definition media_QUJ :: jsval where
  "media_QUJ = JObj [(''event'', JStr ''media''), (''media'', JObj [(''payload'', JStr ''QUJ='')])]"

definition start_MZ2 :: jsval where
  "start_MZ2 =
     JObj [(''event'', JStr ''start''),
           (''start'', JObj [(''streamSid'', JStr ''MZ2''), (''callSid'', JStr ''CA2'')])]"

text \<open>A Start whose stream identifier is an object that cannot be converted to a string.\<close>

definition start_unprintable :: jsval where
  "start_unprintable =
     JObj [(''event'', JStr ''start''),
           (''start'', JObj [(''streamSid'', JObj [(''toString'', JNum 1)])])]"

definition audio_empty :: jsval where
  "audio_empty = JObj [(''type'', JStr ''audio''), (''audio'', JObj [(''chunk'', JStr [])])]"

definition metadata_message :: jsval where
  "metadata_message = JObj [(''type'', JStr ''conversation_initiation_metadata'')]"

text \<open>A session in mid-call: Start processed, AI socket open.\<close>

definition active :: session where
  "active =
     \<lparr>streamSid = JStr ''MZ1'', callSid = JStr ''CA1'', elevenLabsWs = Some OPEN,
      customParameters = JObj [(''prompt'', JStr ''p''), (''first_message'', JStr ''hi'')],
      signedUrlPending = False, twilioWs = OPEN\<rparr>"

section \<open>The request/response path of \<^verbatim>\<open>/process-speech\<close>\<close>

text \<open>
  The route handler fetches a signed URL, opens a socket, and awaits a promise that the
  socket's handlers and a timer settle; the first settlement wins. The reply is sent by
  the code after the \<^verbatim>\<open>await\<close>, here at the step that settles the promise. The
  reply documents are kept as their verbs.
\<close>

datatype promise = Pending | Resolved jsval | Rejected

datatype verb = Say string | Play jsval | GatherSay string | Hangup

datatype speech_effect =
    SpNewWebSocket
  | SpSetTimeout nat
  | SpSend jsval
  | SpClose
  | SpReply "verb list"
  | SpLog string
  | SpError string

record speech =
  speechResult :: jsval
  conversationPromise :: promise
  speechWs :: readyState
  timerPending :: bool

definition error_response :: "verb list" where
  "error_response = [Say ''Sorry, there was an error processing your request.'', Hangup]"

definition audio_response :: "jsval \<Rightarrow> verb list" where
  "audio_response audioData = [Play audioData, GatherSay ''Please continue...'']"

definition speech_catch :: "speech_effect list" where
  "speech_catch = [SpError ''Error processing speech:'', SpReply error_response]"

text \<open>How the fetch of the signed URL and the construction of the socket end.\<close>

datatype bringup = Connected | FetchFailed | InvalidUrl

text \<open>
  The handler up to the \<^verbatim>\<open>await conversationPromise\<close>. The timer is set for 10000
  milliseconds. A failed fetch (logged by getSignedUrl itself) and a constructor that
  throws both end in the handler's catch block.
\<close>

definition process_speech :: "jsval \<Rightarrow> bringup \<Rightarrow> speech option \<times> speech_effect list" where
  "process_speech sr outcome =
     (case outcome of
        Connected \<Rightarrow>
          (Some \<lparr>speechResult = sr, conversationPromise = Pending, speechWs = CONNECTING,
                 timerPending = True\<rparr>,
           [SpNewWebSocket, SpSetTimeout 10000])
      | FetchFailed \<Rightarrow> (None, SpError ''Error getting signed URL:'' # speech_catch)
      | InvalidUrl \<Rightarrow> (None, speech_catch))"

text \<open>\<^verbatim>\<open>ws.close()\<close> on the socket of this path.\<close>

fun closing :: "readyState \<Rightarrow> readyState" where
  "closing CLOSED = CLOSED"
| "closing r = CLOSING"

text \<open>
  \<^verbatim>\<open>resolve(v)\<close> and \<^verbatim>\<open>reject(e)\<close>: no effect on a settled promise. After a
  resolution the handler interpolates the audio into the reply, inside its try block.
\<close>

definition resolve :: "speech \<Rightarrow> jsval \<Rightarrow> speech \<times> speech_effect list" where
  "resolve s v =
     (if conversationPromise s = Pending
      then (s\<lparr>conversationPromise := Resolved v\<rparr>,
            if toStringThrows v then speech_catch else [SpReply (audio_response v)])
      else (s, []))"

definition reject :: "speech \<Rightarrow> speech \<times> speech_effect list" where
  "reject s =
     (if conversationPromise s = Pending
      then (s\<lparr>conversationPromise := Rejected\<rparr>, speech_catch)
      else (s, []))"

definition speech_config :: jsval where
  "speech_config =
     JObj [(''type'', JStr ''conversation_initiation_client_data''),
           (''conversation_config_override'',
            JObj [(''agent'',
              JObj [(''prompt'', JObj [(''prompt'', JStr ''you are a helpful AI assistant'')])])])]"

definition speech_on_open :: "speech \<Rightarrow> speech \<times> speech_effect list" where
  "speech_on_open s =
     (s, [SpLog ''WebSocket connected'', SpSend speech_config,
          SpLog ''Sending text message:'',
          SpSend (JObj [(''type'', JStr ''text''), (''text'', speechResult s)])])"

definition speech_on_message :: "speech \<Rightarrow> frame \<Rightarrow> speech \<times> speech_effect list" where
  "speech_on_message s data =
     (case data of
        Malformed \<Rightarrow> (s, [SpError ''Error processing WebSocket message:''])
      | Json message \<Rightarrow>
          (case getp message ''type'' of
             None \<Rightarrow> (s, [SpError ''Error processing WebSocket message:''])
           | Some t \<Rightarrow>
               if t = JStr ''audio''
                  \<and> truthy (js_or (optp (jsprop message ''audio'') ''chunk'')
                                  (optp (jsprop message ''audio_event'') ''audio_base_64''))
               then (case resolve (s\<lparr>speechWs := closing (speechWs s)\<rparr>)
                            (js_or (optp (jsprop message ''audio'') ''chunk'')
                                   (optp (jsprop message ''audio_event'') ''audio_base_64''))
                     of (s', fx) \<Rightarrow> (s', SpLog ''Received message type:'' # SpClose # fx))
               else (s, [SpLog ''Received message type:''])))"

definition speech_on_error :: "speech \<Rightarrow> speech \<times> speech_effect list" where
  "speech_on_error s = (case reject s of (s', fx) \<Rightarrow> (s', SpError ''WebSocket error:'' # fx))"

text \<open>The callback of setTimeout: close the socket, then reject.\<close>

definition speech_on_timeout :: "speech \<Rightarrow> speech \<times> speech_effect list" where
  "speech_on_timeout s =
     (case reject (s\<lparr>speechWs := closing (speechWs s)\<rparr>) of (s', fx) \<Rightarrow> (s', SpClose # fx))"

datatype speech_event = SpOpen | SpMessage frame | SpWsError | SpWsClosed | SpTimeout

text \<open>
  One event of this path; \<open>None\<close> where it cannot occur. The timer fires once. The socket
  has no close handler here, its closing only changes the readyState.
\<close>

fun speech_step :: "speech \<Rightarrow> speech_event \<Rightarrow> (speech \<times> speech_effect list) option" where
  "speech_step s SpOpen =
     (if speechWs s = CONNECTING then Some (speech_on_open (s\<lparr>speechWs := OPEN\<rparr>)) else None)"
| "speech_step s (SpMessage data) =
     (if speechWs s = OPEN \<or> speechWs s = CLOSING then Some (speech_on_message s data) else None)"
| "speech_step s SpWsError =
     (if speechWs s \<noteq> CLOSED then Some (speech_on_error (s\<lparr>speechWs := CLOSING\<rparr>)) else None)"
| "speech_step s SpWsClosed =
     (if speechWs s \<noteq> CLOSED then Some (s\<lparr>speechWs := CLOSED\<rparr>, []) else None)"
| "speech_step s SpTimeout =
     (if timerPending s then Some (speech_on_timeout (s\<lparr>timerPending := False\<rparr>)) else None)"

text \<open>A run of this path, as for the relay session.\<close>

fun speech_run :: "speech \<Rightarrow> speech_event list \<Rightarrow> (speech \<times> speech_effect list) option" where
  "speech_run s [] = Some (s, [])"
| "speech_run s (e # es) =
     (case speech_step s e of
        None \<Rightarrow> None
      | Some (s', fx) \<Rightarrow>
          (case speech_run s' es of
             None \<Rightarrow> None
           | Some (s'', fx') \<Rightarrow> Some (s'', fx @ fx')))"

text \<open>
  The events whose handlers call resolve or reject: an audio message with a chunk, a
  socket error, the timer.
\<close>

fun settles :: "speech_event \<Rightarrow> bool" where
  "settles (SpMessage (Json message)) =
     (getp message ''type'' = Some (JStr ''audio'')
      \<and> truthy (js_or (optp (jsprop message ''audio'') ''chunk'')
                      (optp (jsprop message ''audio_event'') ''audio_base_64'')))"
| "settles SpWsError = True"
| "settles SpTimeout = True"
| "settles e = False"

definition waiting :: speech where
  "waiting = \<lparr>speechResult = JStr ''hello'', conversationPromise = Pending, speechWs = OPEN,
              timerPending = True\<rparr>"

section \<open>Base64: decoding what was encoded\<close>

lemma b64chars_length: "length b64chars = 64"
  by (simp add: b64chars_def)

lemma b64chars_distinct: "distinct b64chars"
  by (simp add: b64chars_def)

lemma notin: "CHR ''='' \<notin> set b64chars" "CHR ''-'' \<notin> set b64chars" "CHR ''_'' \<notin> set b64chars"
    by (simp_all add: b64chars_def)

lemma div_low: "c < k \<Longrightarrow> (q * k + c) div k = (q::nat)"
  by simp

lemma mod_low: "c < k \<Longrightarrow> (q * k + c) mod k = (c::nat)"
  by simp

lemma split64: "(n::nat) div 64 * 64 + n mod 64 = n"
  by (rule div_mult_mod_eq)

lemma d4096: "(n::nat) div 64 div 64 = n div 4096"
  using div_mult2_eq [of n 64 64] by simp

lemma d262144: "(n::nat) div 4096 div 64 = n div 262144"
  using div_mult2_eq [of n 4096 64] by simp

lemma digits2: "(n::nat) div 262144 * 64 + n div 4096 mod 64 = n div 4096"
  using split64 [of "n div 4096"] by (simp only: d262144)

lemma digits3: "(n::nat) div 262144 * 4096 + n div 4096 mod 64 * 64 + n div 64 mod 64 = n div 64"
proof -
  have "n div 4096 * 64 + n div 64 mod 64 = n div 64"
    using split64 [of "n div 64"] by (simp only: d4096)
  moreover have "n div 4096 * 64 = n div 262144 * 4096 + n div 4096 mod 64 * 64"
    using arg_cong [OF digits2 [of n], of "\<lambda>x. x * 64"] by (simp add: add_mult_distrib)
  ultimately show ?thesis by simp
qed

lemma digits4:
  "(n::nat) div 262144 * 262144 + n div 4096 mod 64 * 4096 + n div 64 mod 64 * 64 + n mod 64 = n"
proof -
  have "n div 64 * 64 = n div 262144 * 262144 + n div 4096 mod 64 * 4096 + n div 64 mod 64 * 64"
    using arg_cong [OF digits3 [of n], of "\<lambda>x. x * 64"] by (simp add: add_mult_distrib)
  with split64 [of n] show ?thesis by simp
qed

lemma bytes3:
  fixes a b c :: nat
  assumes "a < 256" "b < 256" "c < 256"
  shows "(a * 65536 + b * 256 + c) div 65536 = a"
    and "(a * 65536 + b * 256 + c) div 256 mod 256 = b"
    and "(a * 65536 + b * 256 + c) mod 256 = c"
proof -
  have lo: "b * 256 + c < 65536" using assms by simp
  have e: "a * 65536 + b * 256 + c = (a * 256 + b) * 256 + c" by simp
  show "(a * 65536 + b * 256 + c) div 65536 = a"
    using div_low [OF lo, of a] by (simp add: add.assoc)
  have "(a * 65536 + b * 256 + c) div 256 = a * 256 + b"
    unfolding e by (rule div_low [OF assms(3)])
  then show "(a * 65536 + b * 256 + c) div 256 mod 256 = b"
    using mod_low [OF assms(2), of a] by simp
  show "(a * 65536 + b * 256 + c) mod 256 = c"
    unfolding e by (rule mod_low [OF assms(3)])
qed

lemma top_digit: "(n::nat) < 16777216 \<Longrightarrow> n div 262144 < 64"
  by (rule less_mult_imp_div_less) simp

lemma unat_byte: "unat (a::byte) < 256"
  using unsigned_less [of a, where ?'a = nat] by simp

lemma three_bound:
  "unat (a::byte) * 65536 + unat (b::byte) * 256 + unat (c::byte) < 16777216"
  using unat_byte [of a] unat_byte [of b] unat_byte [of c] by simp

lemma index_of_nth:
  "distinct xs \<Longrightarrow> n < length xs \<Longrightarrow> index_of (xs ! n) xs = Some n"
proof (induction xs arbitrary: n)
  case Nil
  then show ?case by simp
next
  case (Cons x xs)
  show ?case
  proof (cases n)
    case 0
    then show ?thesis by simp
  next
    case (Suc m)
    with Cons.prems have "m < length xs" "distinct xs" "xs ! m \<noteq> x"
      by (auto simp add: nth_mem)
    with Cons.IH [of m] Suc show ?thesis by auto
  qed
qed

lemma enc_in_alphabet: "n < 64 \<Longrightarrow> enc n \<in> set b64chars"
  by (simp add: enc_def b64chars_length)

lemma enc_not_special:
  assumes "n < 64"
  shows "enc n \<noteq> CHR ''=''" and "enc n \<noteq> CHR ''-''" and "enc n \<noteq> CHR ''_''"
  using enc_in_alphabet [OF assms] notin by auto

lemma unbase64_enc: "n < 64 \<Longrightarrow> unbase64 (enc n) = Some n"
  using index_of_nth [OF b64chars_distinct, of n] enc_not_special [of n]
  by (simp add: unbase64_def enc_def b64chars_length)

lemma sextets_Nil: "sextets [] = []"
  by (simp add: sextets_def map_filter_simps)

lemma sextets_pad: "sextets (CHR ''='' # s) = []"
  by (simp add: sextets_def map_filter_simps)

lemma sextets_enc: "n < 64 \<Longrightarrow> sextets (enc n # s) = n # sextets s"
  using enc_not_special(1) [of n] unbase64_enc [of n]
  by (simp add: sextets_def map_filter_simps)

lemma digit_less: "(k::nat) mod 64 < 64"
  by simp

lemma decode_one: "b64decode (b64encode [a]) = [a]"
proof -
  define n where "n = unat a * 65536"
  have n16: "n < 16777216" using unat_byte [of a] by (simp add: n_def)
  have e: "b64encode [a] = [enc (n div 262144), enc (n div 4096 mod 64), CHR ''='', CHR ''='']"
    unfolding n_def by (simp only: b64encode.simps Let_def)
  have s: "sextets (b64encode [a]) = [n div 262144, n div 4096 mod 64]"
    unfolding e
    by (simp only: sextets_enc [OF top_digit [OF n16]] sextets_enc [OF digit_less] sextets_pad)
  have "n = (unat a * 16) * 4096 + 0" by (simp add: n_def)
  then have q: "n div 4096 = unat a * 16" using div_low [of 0 4096 "unat a * 16"] by simp
  have "(n div 262144 * 64 + n div 4096 mod 64) div 16 = n div 4096 div 16"
    by (simp only: digits2)
  also have "\<dots> = unat a" by (simp add: q)
  finally have d: "(n div 262144 * 64 + n div 4096 mod 64) div 16 = unat a" .
  show ?thesis unfolding b64decode_def s dec.simps d by simp
qed

lemma decode_two: "b64decode (b64encode [a, b]) = [a, b]"
proof -
  define n where "n = unat a * 65536 + unat b * 256"
  define m where "m = n div 262144 * 4096 + n div 4096 mod 64 * 64 + n div 64 mod 64"
  have n16: "n < 16777216" using unat_byte [of a] unat_byte [of b] by (simp add: n_def)
  have e: "b64encode [a, b] =
             [enc (n div 262144), enc (n div 4096 mod 64), enc (n div 64 mod 64), CHR ''='']"
    unfolding n_def by (simp only: b64encode.simps Let_def)
  have s: "sextets (b64encode [a, b]) = [n div 262144, n div 4096 mod 64, n div 64 mod 64]"
    unfolding e
    by (simp only: sextets_enc [OF top_digit [OF n16]] sextets_enc [OF digit_less] sextets_pad)
  have "n = (unat a * 1024 + unat b * 4) * 64 + 0" by (simp add: n_def)
  then have "n div 64 = unat a * 1024 + unat b * 4"
    using div_low [of 0 64 "unat a * 1024 + unat b * 4"] by simp
  moreover have "m = n div 64" unfolding m_def by (rule digits3)
  ultimately have m: "m = unat a * 1024 + unat b * 4" by simp
  have lo: "unat b * 4 < 1024" using unat_byte [of b] by simp
  have hi: "m div 1024 = unat a" unfolding m by (rule div_low [OF lo])
  have "m = (unat a * 256 + unat b) * 4 + 0" by (simp add: m)
  then have "m div 4 = unat a * 256 + unat b"
    using div_low [of 0 4 "unat a * 256 + unat b"] by simp
  then have lw: "m div 4 mod 256 = unat b"
    by (simp only: mod_low [OF unat_byte])
  show ?thesis unfolding b64decode_def s dec.simps Let_def m_def [symmetric] hi lw by simp
qed

lemma decode_three:
  "b64decode (b64encode (a # b # c # bs)) = a # b # c # b64decode (b64encode bs)"
proof -
  define n where "n = unat a * 65536 + unat b * 256 + unat c"
  have e: "b64encode (a # b # c # bs) =
             [enc (n div 262144), enc (n div 4096 mod 64), enc (n div 64 mod 64), enc (n mod 64)]
             @ b64encode bs"
    unfolding n_def by (simp only: b64encode.simps Let_def)
  have s: "sextets (b64encode (a # b # c # bs)) =
             n div 262144 # n div 4096 mod 64 # n div 64 mod 64 # n mod 64 # sextets (b64encode bs)"
    unfolding e append.simps
    by (simp only: sextets_enc [OF top_digit [OF three_bound [of a b c, folded n_def]]]
          sextets_enc [OF digit_less])
  have b: "n div 65536 = unat a" "n div 256 mod 256 = unat b" "n mod 256 = unat c"
    unfolding n_def by (rule bytes3 [OF unat_byte unat_byte unat_byte])+
  show ?thesis unfolding b64decode_def s dec.simps Let_def digits4 b by simp
qed

lemma b64_roundtrip: "b64decode (b64encode bs) = bs"
proof (induction bs rule: b64encode.induct)
  case 1
  show ?case by (simp add: b64decode_def sextets_Nil)
next
  case (2 a)
  show ?case by (rule decode_one)
next
  case (3 a b)
  show ?case by (rule decode_two)
next
  case (4 a b c bs)
  then show ?case by (simp only: decode_three)
qed

lemma sext_QUJ: "sextets ''QUJ='' = [16, 20, 9]"
  by (simp add: sextets_def map_filter_simps unbase64_def b64chars_def)

lemma dec_QUJ: "b64decode ''QUJ='' = [0x41, 0x42]"
  by (simp add: b64decode_def sext_QUJ)

lemma enc_AB: "b64encode [0x41, 0x42] = ''QUI=''"
  by (simp add: enc_def b64chars_def)

lemma reencode_QUJ: "b64encode (b64decode ''QUJ='') = ''QUI=''"
  by (simp only: dec_QUJ enc_AB)

lemma enc_ABC: "b64encode [0x41, 0x42, 0x43] = ''QUJD''"
  by (simp add: enc_def b64chars_def)

section \<open>What the handlers can do\<close>

lemma el_msg_state: "fst (elevenLabs_on_message s d) = s"
  by (simp add: elevenLabs_on_message_def split: frame.splits option.splits)

lemma el_switch_effects:
  "e \<in> set (elevenLabs_switch s m t) \<Longrightarrow> e \<noteq> ElCloseCall \<and> e \<noteq> GetSignedUrl \<and> e \<noteq> NewWebSocket"
  by (auto simp add: elevenLabs_switch_def el_error_def split: if_splits)

lemma el_msg_effects:
  "e \<in> set (snd (elevenLabs_on_message s d)) \<Longrightarrow> e \<noteq> ElCloseCall \<and> e \<noteq> GetSignedUrl \<and> e \<noteq> NewWebSocket"
  using el_switch_effects
  by (auto simp add: elevenLabs_on_message_def el_error_def split: frame.splits option.splits)

lemma close_if_open_cases:
  "close_if_open s = (s, []) \<and> elevenLabsWs s \<noteq> Some OPEN
   \<or> close_if_open s = (s\<lparr>elevenLabsWs := Some CLOSING\<rparr>, [ElCloseCall]) \<and> elevenLabsWs s = Some OPEN"
  by (simp add: close_if_open_def)

text \<open>What a telephony message can do to the session: nothing to the sockets, or the one close.\<close>

lemma tw_stop_shape:
  "twilio_stop s = (s', fx) \<Longrightarrow>
     (s' = s \<and> quiet fx) \<or>
     (elevenLabsWs s = Some OPEN \<and> s' = s\<lparr>elevenLabsWs := Some CLOSING\<rparr>
        \<and> fx = [ConsoleLog ''[Twilio] Stream ended'', ElCloseCall])"
  using close_if_open_cases [of s]
  by (auto simp add: twilio_stop_def quiet_def tw_error_def split: if_splits)

lemma tw_start_shape:
  "twilio_start s msg = (s', fx) \<Longrightarrow>
     quiet fx \<and> elevenLabsWs s' = elevenLabsWs s \<and> signedUrlPending s' = signedUrlPending s
      \<and> twilioWs s' = twilioWs s"
  by (auto simp add: twilio_start_def quiet_def tw_error_def Let_def split: option.splits if_splits)

lemma tw_media_shape:
  "twilio_media B s msg = (s', fx) \<Longrightarrow> s' = s \<and> quiet fx"
  by (auto simp add: twilio_media_def quiet_def tw_error_def split: option.splits if_splits)

lemma tw_msg_shape:
  assumes "twilio_on_message B s d = (s', fx)"
  shows "(quiet fx \<and> elevenLabsWs s' = elevenLabsWs s \<and> signedUrlPending s' = signedUrlPending s
            \<and> twilioWs s' = twilioWs s)
         \<or> (elevenLabsWs s = Some OPEN \<and> s' = s\<lparr>elevenLabsWs := Some CLOSING\<rparr>
            \<and> fx = [ConsoleLog ''[Twilio] Received event:'', ConsoleLog ''[Twilio] Stream ended'',
                     ElCloseCall])"
proof (cases d)
  case Malformed
  with assms show ?thesis by (auto simp add: twilio_on_message_def quiet_def tw_error_def)
next
  case (Json msg)
  show ?thesis
  proof (cases "getp msg ''event''")
    case None
    with Json assms show ?thesis by (auto simp add: twilio_on_message_def quiet_def tw_error_def)
  next
    case (Some ev)
    consider (media) "ev = JStr ''media''"
      | (throws) "ev \<noteq> JStr ''media''" "toStringThrows ev"
      | (start) "ev = JStr ''start''"
      | (stop) "ev = JStr ''stop''"
      | (other) "ev \<noteq> JStr ''media''" "\<not> toStringThrows ev" "ev \<noteq> JStr ''start''" "ev \<noteq> JStr ''stop''"
      by auto
    then show ?thesis
    proof cases
      case media
      with Json Some assms have "twilio_media B s msg = (s', fx)"
        by (simp add: twilio_on_message_def)
      from tw_media_shape [OF this] show ?thesis by simp
    next
      case throws
      with Json Some assms show ?thesis
        by (auto simp add: twilio_on_message_def quiet_def tw_error_def)
    next
      case start
      obtain s1 fx1 where st: "twilio_start s msg = (s1, fx1)" by (cases "twilio_start s msg")
      with start Json Some assms have "s' = s1" "fx = ConsoleLog ''[Twilio] Received event:'' # fx1"
        by (auto simp add: twilio_on_message_def)
      with tw_start_shape [OF st] show ?thesis by (auto simp add: quiet_def)
    next
      case stop
      obtain s1 fx1 where st: "twilio_stop s = (s1, fx1)" by (cases "twilio_stop s")
      with stop Json Some assms have "s' = s1" "fx = ConsoleLog ''[Twilio] Received event:'' # fx1"
        by (auto simp add: twilio_on_message_def)
      with tw_stop_shape [OF st] show ?thesis by (auto simp add: quiet_def)
    next
      case other
      with Json Some assms show ?thesis
        by (auto simp add: twilio_on_message_def quiet_def)
    qed
  qed
qed

lemma quiet_closes: "quiet fx \<Longrightarrow> closes fx = 0"
  by (auto simp add: quiet_def closes_def filter_empty_conv)

lemma quiet_no_ws_send: "quiet fx \<Longrightarrow> \<not> list_ex is_ws_send fx"
  by (auto simp add: quiet_def list_ex_iff)

lemma quiet_no_socket: "quiet fx \<Longrightarrow> no_socket_effects fx"
  by (auto simp add: quiet_def no_socket_effects_def)

lemma run_append:
  "run B s (xs @ ys) =
     (case run B s xs of
        None \<Rightarrow> None
      | Some (s', fx) \<Rightarrow>
          (case run B s' ys of None \<Rightarrow> None | Some (s'', fx') \<Rightarrow> Some (s'', fx @ fx')))"
  by (induction xs arbitrary: s) (auto split: option.splits)

lemma step_url_settled:
  assumes "url_settled s" and "step B s e = Some (s', fx)"
  shows "url_settled s'"
proof (cases e)
  case (TwMessage d)
  with assms tw_msg_shape [of B s d s' fx] show ?thesis
    by (auto simp add: url_settled_def split: if_splits)
next
  case (ElMessage d)
  with assms el_msg_state [of s d] show ?thesis
    by (auto simp add: url_settled_def split: if_splits)
qed (use assms in \<open>auto simp add: url_settled_def elevenLabs_on_open_def twilio_on_close_def
      close_if_open_def el_live_def split: if_splits\<close>)

lemma step_closes:
  assumes "url_settled s" and "step B s e = Some (s', fx)"
  shows "closes fx \<le> 1 \<and> (closes fx = 1 \<longrightarrow> closed_side s')"
proof (cases e)
  case (TwMessage d)
  with assms tw_msg_shape [of B s d s' fx] quiet_closes [of fx] show ?thesis
    by (auto simp add: url_settled_def closed_side_def closes_def split: if_splits)
next
  case (ElMessage d)
  with assms el_msg_effects [of _ s d] have "closes fx = 0"
    by (auto simp add: closes_def filter_empty_conv split: if_splits)
  then show ?thesis by simp
qed (use assms in \<open>auto simp add: url_settled_def closed_side_def closes_def elevenLabs_on_open_def
      twilio_on_close_def close_if_open_def el_live_def split: if_splits\<close>)

lemma step_closed_side:
  assumes "closed_side s" and "step B s e = Some (s', fx)"
  shows "closed_side s' \<and> closes fx = 0"
proof (cases e)
  case (TwMessage d)
  with assms tw_msg_shape [of B s d s' fx] quiet_closes [of fx] show ?thesis
    by (auto simp add: closed_side_def split: if_splits)
next
  case (ElMessage d)
  with assms el_msg_effects [of _ s d] el_msg_state [of s d] show ?thesis
    by (auto simp add: closes_def closed_side_def filter_empty_conv split: if_splits)
qed (use assms in \<open>auto simp add: closed_side_def closes_def elevenLabs_on_open_def
      twilio_on_close_def close_if_open_def el_live_def split: if_splits\<close>)

lemma run_closed_side:
  "closed_side s \<Longrightarrow> run B s evs = Some (s', fx) \<Longrightarrow> closes fx = 0"
proof (induction evs arbitrary: s s' fx)
  case Nil
  then show ?case by (simp add: closes_def)
next
  case (Cons e es)
  from Cons.prems(2) obtain s1 fx1 s2 fx2 where
    st: "step B s e = Some (s1, fx1)" and rn: "run B s1 es = Some (s2, fx2)"
    and eq: "fx = fx1 @ fx2"
    by (auto split: option.splits)
  from step_closed_side [OF Cons.prems(1) st] Cons.IH [OF _ rn] eq show ?case
    by (simp add: closes_def)
qed

lemma run_closes_once:
  "url_settled s \<Longrightarrow> run B s evs = Some (s', fx) \<Longrightarrow> closes fx \<le> 1"
proof (induction evs arbitrary: s s' fx)
  case Nil
  then show ?case by (simp add: closes_def)
next
  case (Cons e es)
  from Cons.prems(2) obtain s1 fx1 s2 fx2 where
    st: "step B s e = Some (s1, fx1)" and rn: "run B s1 es = Some (s2, fx2)"
    and eq: "fx = fx1 @ fx2"
    by (auto split: option.splits)
  have sum: "closes fx = closes fx1 + closes fx2" using eq by (simp add: closes_def)
  show ?case
  proof (cases "closes fx1 = 1")
    case True
    with step_closes [OF Cons.prems(1) st] have "closed_side s1" by simp
    from run_closed_side [OF this rn] True sum show ?thesis by simp
  next
    case False
    with step_closes [OF Cons.prems(1) st] have "closes fx1 = 0" by simp
    with Cons.IH [OF step_url_settled [OF Cons.prems(1) st] rn] sum show ?thesis by simp
  qed
qed

lemma connection_url_settled: "url_settled (fst connection)"
  by (simp add: url_settled_def connection_def)

lemma step_twilioWs:
  assumes "step B s e = Some (s', fx)"
  shows "twilioWs s' = (if e = TwClosed then CLOSED else twilioWs s)"
proof (cases e)
  case (TwMessage d)
  with assms tw_msg_shape [of B s d s' fx] show ?thesis
    by (auto split: if_splits)
next
  case (ElMessage d)
  with assms el_msg_state [of s d] show ?thesis
    by (auto split: if_splits)
qed (use assms in \<open>auto simp add: elevenLabs_on_open_def twilio_on_close_def
      close_if_open_def split: if_splits\<close>)

lemma run_twilioWs:
  "run B s evs = Some (s', fx) \<Longrightarrow> twilioWs s' = (if TwClosed \<in> set evs then CLOSED else twilioWs s)"
proof (induction evs arbitrary: s s' fx)
  case Nil
  then show ?case by simp
next
  case (Cons e es)
  from Cons.prems obtain s1 fx1 s2 fx2 where
    st: "step B s e = Some (s1, fx1)" and rn: "run B s1 es = Some (s2, fx2)"
    and eq: "s' = s2"
    by (auto split: option.splits)
  from step_twilioWs [OF st] Cons.IH [OF rn] eq show ?case by auto
qed

lemma step_el_dead:
  assumes "el_dead s" and "step B s e = Some (s', fx)"
  shows "el_dead s' \<and> \<not> list_ex is_ws_send fx \<and> no_socket_effects fx \<and> closes fx = 0"
proof (cases e)
  case (TwMessage d)
  with assms tw_msg_shape [of B s d s' fx] quiet_no_ws_send [of fx] quiet_no_socket [of fx]
    quiet_closes [of fx]
  show ?thesis
    by (auto simp add: el_dead_def split: if_splits)
qed (use assms in \<open>auto simp add: el_dead_def elevenLabs_on_open_def twilio_on_close_def
      close_if_open_def el_live_def no_socket_effects_def closes_def split: if_splits\<close>)

lemma run_el_dead:
  "el_dead s \<Longrightarrow> run B s evs = Some (s', fx) \<Longrightarrow>
     el_dead s' \<and> \<not> list_ex is_ws_send fx \<and> no_socket_effects fx \<and> closes fx = 0"
proof (induction evs arbitrary: s s' fx)
  case Nil
  then show ?case by (simp add: no_socket_effects_def closes_def)
next
  case (Cons e es)
  from Cons.prems(2) obtain s1 fx1 s2 fx2 where
    st: "step B s e = Some (s1, fx1)" and rn: "run B s1 es = Some (s2, fx2)"
    and eq: "fx = fx1 @ fx2" "s' = s2"
    by (auto split: option.splits)
  from step_el_dead [OF Cons.prems(1) st] have d1: "el_dead s1" by simp
  from step_el_dead [OF Cons.prems(1) st] Cons.IH [OF d1 rn] eq show ?case
    by (simp add: no_socket_effects_def closes_def)
qed

text \<open>A step that ends in a session whose AI socket has not opened started in one and sent
  nothing to the telephony side, closed nothing and asked for no further signed URL.\<close>

lemma step_unopened:
  assumes "url_settled s" and "step B s e = Some (s', fx)" and "unopened s'"
  shows "unopened s \<and> \<not> list_ex is_ws_send fx \<and> closes fx = 0 \<and> GetSignedUrl \<notin> set fx"
proof (cases e)
  case (TwMessage d)
  with assms tw_msg_shape [of B s d s' fx] quiet_no_ws_send [of fx] quiet_closes [of fx]
    quiet_no_socket [of fx]
  show ?thesis
    by (auto simp add: unopened_def no_socket_effects_def split: if_splits)
next
  case (ElMessage d)
  with assms el_msg_state [of s d] show ?thesis
    by (auto simp add: unopened_def el_live_def split: if_splits)
qed (use assms in \<open>auto simp add: unopened_def url_settled_def elevenLabs_on_open_def
      twilio_on_close_def close_if_open_def el_live_def closes_def split: if_splits\<close>)

lemma run_unopened:
  "url_settled s \<Longrightarrow> run B s evs = Some (s', fx) \<Longrightarrow> unopened s' \<Longrightarrow>
     \<not> list_ex is_ws_send fx \<and> closes fx = 0 \<and> GetSignedUrl \<notin> set fx"
proof (induction evs arbitrary: s s' fx)
  case Nil
  then show ?case by (simp add: closes_def)
next
  case (Cons e es)
  from Cons.prems(2) obtain s1 fx1 s2 fx2 where
    st: "step B s e = Some (s1, fx1)" and rn: "run B s1 es = Some (s2, fx2)"
    and eq: "fx = fx1 @ fx2" "s' = s2"
    by (auto split: option.splits)
  have u1: "url_settled s1" by (rule step_url_settled [OF Cons.prems(1) st])
  have rest: "\<not> list_ex is_ws_send fx2 \<and> closes fx2 = 0 \<and> GetSignedUrl \<notin> set fx2"
    using Cons.IH [OF u1 rn] Cons.prems(3) eq by simp
  have "unopened s1"
  proof (rule ccontr)
    assume n: "\<not> unopened s1"
    have "\<And>t t' es fx. url_settled t \<Longrightarrow> \<not> unopened t \<Longrightarrow> run B t es = Some (t', fx) \<Longrightarrow> \<not> unopened t'"
    proof -
      fix t t' es fx
      show "url_settled t \<Longrightarrow> \<not> unopened t \<Longrightarrow> run B t es = Some (t', fx) \<Longrightarrow> \<not> unopened t'"
      proof (induction es arbitrary: t t' fx)
        case Nil
        then show ?case by simp
      next
        case (Cons a as)
        from Cons.prems(3) obtain t1 g1 t2 g2 where
          a: "step B t a = Some (t1, g1)" and b: "run B t1 as = Some (t2, g2)" and c: "t' = t2"
          by (auto split: option.splits)
        have "\<not> unopened t1" using step_unopened [OF Cons.prems(1) a] Cons.prems(2) by blast
        from Cons.IH [OF step_url_settled [OF Cons.prems(1) a] this b] c show ?case by simp
      qed
    qed
    from this [OF u1 n rn] Cons.prems(3) eq show False by simp
  qed
  from step_unopened [OF Cons.prems(1) st this] rest eq show ?case
    by (simp add: closes_def)
qed

lemma run_url_settled:
  "url_settled s \<Longrightarrow> run B s evs = Some (s', fx) \<Longrightarrow> url_settled s'"
proof (induction evs arbitrary: s s' fx)
  case Nil
  then show ?case by simp
next
  case (Cons e es)
  from Cons.prems(2) obtain s1 fx1 s2 fx2 where
    st: "step B s e = Some (s1, fx1)" and rn: "run B s1 es = Some (s2, fx2)" and eq: "s' = s2"
    by (auto split: option.splits)
  from Cons.IH [OF step_url_settled [OF Cons.prems(1) st] rn] eq show ?case by simp
qed

lemma failure_step:
  assumes "url_settled s" and "setup_failure e" and "step B s e = Some (s', fx)"
  shows "unopened s \<and> el_dead s' \<and> \<not> list_ex is_ws_send fx \<and> no_socket_effects fx \<and> closes fx = 0"
  using assms
  by (cases e) (auto simp add: url_settled_def unopened_def el_dead_def no_socket_effects_def
      closes_def split: if_splits)

lemma setup_failure_run:
  assumes "run B (fst connection) evs = Some (s, fx)" and "\<exists>e \<in> set evs. setup_failure e"
  shows "\<not> list_ex is_ws_send fx \<and> GetSignedUrl \<notin> set fx \<and> closes fx = 0 \<and> el_dead s"
proof -
  from assms(2) obtain pre f post where sp: "evs = pre @ f # post" and f: "setup_failure f"
    by (auto simp add: in_set_conv_decomp)
  from assms(1) sp obtain s1 fx1 s2 fx2 s3 fx3 where
    r1: "run B (fst connection) pre = Some (s1, fx1)" and
    st: "step B s1 f = Some (s2, fx2)" and
    r3: "run B s2 post = Some (s3, fx3)" and
    eq: "fx = fx1 @ fx2 @ fx3" "s = s3"
    by (auto simp add: run_append split: option.splits)
  have u1: "url_settled s1" by (rule run_url_settled [OF connection_url_settled r1])
  from failure_step [OF u1 f st] have un: "unopened s1" and dead: "el_dead s2"
    and q2: "\<not> list_ex is_ws_send fx2" "no_socket_effects fx2" "closes fx2 = 0" by simp_all
  from run_unopened [OF connection_url_settled r1 un]
  have q1: "\<not> list_ex is_ws_send fx1" "closes fx1 = 0" "GetSignedUrl \<notin> set fx1" by simp_all
  from run_el_dead [OF dead r3]
  have q3: "el_dead s3" "\<not> list_ex is_ws_send fx3" "no_socket_effects fx3" "closes fx3 = 0" by simp_all
  from q1 q2 q3 eq show ?thesis by (simp add: no_socket_effects_def closes_def)
qed

lemma tw_msg_ids:
  assumes "\<not> is_start (TwMessage d)" and "twilio_on_message B s d = (s', fx)"
  shows "streamSid s' = streamSid s \<and> callSid s' = callSid s
         \<and> customParameters s' = customParameters s"
proof (cases d)
  case Malformed
  with assms(2) show ?thesis by (auto simp add: twilio_on_message_def)
next
  case (Json msg)
  with assms(1) have ns: "getp msg ''event'' \<noteq> Some (JStr ''start'')" by simp
  show ?thesis
  proof (cases "getp msg ''event''")
    case None
    with Json assms(2) show ?thesis by (auto simp add: twilio_on_message_def)
  next
    case (Some ev)
    with ns have "ev \<noteq> JStr ''start''" by simp
    with Json Some assms(2) show ?thesis
      by (auto simp add: twilio_on_message_def twilio_media_def twilio_stop_def close_if_open_def
          split: option.splits prod.splits if_splits)
  qed
qed

lemma step_ids:
  assumes "\<not> is_start e" and "step B s e = Some (s', fx)"
  shows "streamSid s' = streamSid s \<and> callSid s' = callSid s
         \<and> customParameters s' = customParameters s"
proof (cases e)
  case (TwMessage d)
  with assms tw_msg_ids [of d B s s' fx] show ?thesis
    by (auto split: if_splits)
next
  case (ElMessage d)
  with assms el_msg_state [of s d] show ?thesis
    by (auto split: if_splits)
qed (use assms in \<open>auto simp add: elevenLabs_on_open_def twilio_on_close_def
      close_if_open_def split: if_splits\<close>)

lemma run_ids:
  "\<forall>e \<in> set evs. \<not> is_start e \<Longrightarrow> run B s evs = Some (s', fx) \<Longrightarrow>
     streamSid s' = streamSid s \<and> callSid s' = callSid s
     \<and> customParameters s' = customParameters s"
proof (induction evs arbitrary: s s' fx)
  case Nil
  then show ?case by simp
next
  case (Cons e es)
  from Cons.prems(2) obtain s1 fx1 s2 fx2 where
    st: "step B s e = Some (s1, fx1)" and rn: "run B s1 es = Some (s2, fx2)" and eq: "s' = s2"
    by (auto split: option.splits)
  from Cons.prems(1) have a: "\<not> is_start e" and b: "\<forall>e \<in> set es. \<not> is_start e" by simp_all
  from step_ids [OF a st] Cons.IH [OF b rn] eq show ?case by simp
qed

section \<open>Concrete runs\<close>

lemma run_fetch_failed:
  "run noObjects (fst connection) [UrlFetchFailed] =
     Some (\<lparr>streamSid = JNull, callSid = JNull, elevenLabsWs = None, customParameters = JNull,
            signedUrlPending = False, twilioWs = OPEN\<rparr>,
           [ConsoleError ''Error getting signed URL:'', ConsoleError ''[ElevenLabs] Setup error:''])"
  by (simp add: connection_def)

lemma run_connect_failed:
  "run noObjects (fst connection) [UrlFetched, ElConnectFailed] =
     Some (\<lparr>streamSid = JNull, callSid = JNull, elevenLabsWs = Some CLOSED,
            customParameters = JNull, signedUrlPending = False, twilioWs = OPEN\<rparr>,
           [NewWebSocket, ConsoleError ''[ElevenLabs] WebSocket error:'',
            ConsoleLog ''[ElevenLabs] Disconnected''])"
  by (simp add: connection_def)

lemma run_ai_closed:
  "run noObjects (fst connection) [UrlFetched, ElOpen, ElClosed] =
     Some (\<lparr>streamSid = JNull, callSid = JNull, elevenLabsWs = Some CLOSED,
            customParameters = JNull, signedUrlPending = False, twilioWs = OPEN\<rparr>,
           [NewWebSocket, ConsoleLog ''[ElevenLabs] Connected to Conversational AI'',
            ConsoleLog ''[ElevenLabs] Sending initial config with prompt:'',
            ElSend (handshake (JStr default_prompt) (JStr default_first_message)),
            ConsoleLog ''[ElevenLabs] Disconnected''])"
  by (simp add: connection_def elevenLabs_on_open_def initialConfig_def optp_def js_or_def
        el_live_def)


lemma start_MZ1_event: "start_event start_MZ1"
  by (simp add: start_event_def start_MZ1_def getp_def)

lemma stop_frame_event: "stop_event stop_frame"
  by (simp add: stop_event_def stop_frame_def getp_def)

lemma step_start_MZ1:
  "step noObjects (fst connection) (TwMessage (Json start_MZ1)) =
     Some (\<lparr>streamSid = JStr ''MZ1'', callSid = JStr ''CA1'', elevenLabsWs = None,
            customParameters = JObj [(''prompt'', JStr ''p''), (''first_message'', JStr ''hi'')],
            signedUrlPending = True, twilioWs = OPEN\<rparr>,
           [ConsoleLog ''[Twilio] Received event:'', ConsoleLog ''[Twilio] Stream started'',
            ConsoleLog ''[Twilio] Start parameters:''])"
  by (simp add: connection_def twilio_on_message_def twilio_start_def start_MZ1_def getp_def
        Let_def)


lemma run_fetch_open:
  "run noObjects
     \<lparr>streamSid = JStr ''MZ1'', callSid = JStr ''CA1'', elevenLabsWs = None,
      customParameters = JObj [(''prompt'', JStr ''p''), (''first_message'', JStr ''hi'')],
      signedUrlPending = True, twilioWs = OPEN\<rparr> [UrlFetched, ElOpen] =
     Some (active,
           [NewWebSocket, ConsoleLog ''[ElevenLabs] Connected to Conversational AI'',
            ConsoleLog ''[ElevenLabs] Sending initial config with prompt:'',
            ElSend (handshake (JStr ''p'') (JStr ''hi''))])"
  by (simp add: elevenLabs_on_open_def initialConfig_def optp_def js_or_def active_def)

lemma run_two_stops:
  "run noObjects (fst connection)
     [UrlFetched, ElOpen, TwMessage (Json stop_frame), TwMessage (Json stop_frame), TwClosed] =
     Some (\<lparr>streamSid = JNull, callSid = JNull, elevenLabsWs = Some CLOSING,
            customParameters = JNull, signedUrlPending = False, twilioWs = CLOSED\<rparr>,
           [NewWebSocket, ConsoleLog ''[ElevenLabs] Connected to Conversational AI'',
            ConsoleLog ''[ElevenLabs] Sending initial config with prompt:'',
            ElSend (handshake (JStr default_prompt) (JStr default_first_message)),
            ConsoleLog ''[Twilio] Received event:'', ConsoleLog ''[Twilio] Stream ended'',
            ElCloseCall,
            ConsoleLog ''[Twilio] Received event:'', ConsoleLog ''[Twilio] Stream ended'',
            ConsoleLog ''[Twilio] Client disconnected''])"
  by (simp add: connection_def elevenLabs_on_open_def initialConfig_def optp_def js_or_def
        twilio_on_message_def twilio_stop_def stop_frame_def getp_def close_if_open_def
        twilio_on_close_def)


lemma handshake_defaults:
  "handshake (JStr default_prompt) (JStr default_first_message) =
        (JObj [(''type'', JStr ''conversation_initiation_client_data''),
          (''conversation_config_override'', JObj [(''agent'', JObj [(''prompt'',
          JObj [(''prompt'', JStr ''you are a gary from the phone store'')]),
          (''first_message'', JStr ''hey there! how can I help you today?'')])])])"
  by (simp add: handshake_def default_prompt_def default_first_message_def)

lemma initialConfig_frame:
  "initialConfig params =
     JObj [(''type'', JStr ''conversation_initiation_client_data''),
           (''conversation_config_override'',
            JObj [(''agent'',
              JObj [(''prompt'',
                      JObj [(''prompt'',
                        if truthy (optp params ''prompt'') then optp params ''prompt''
                        else JStr ''you are a gary from the phone store'')]),
                    (''first_message'',
                      if truthy (optp params ''first_message'') then optp params ''first_message''
                      else JStr ''hey there! how can I help you today?'')])])]"
  by (simp add: initialConfig_def handshake_def js_or_def default_prompt_def
        default_first_message_def)

lemma run_ai_closed_frames:
  "run noObjects (fst connection) [UrlFetched, ElOpen, ElClosed] =
     Some (\<lparr>streamSid = JNull, callSid = JNull, elevenLabsWs = Some CLOSED,
            customParameters = JNull, signedUrlPending = False, twilioWs = OPEN\<rparr>,
           [NewWebSocket, ConsoleLog ''[ElevenLabs] Connected to Conversational AI'', ConsoleLog ''[ElevenLabs] Sending initial config with prompt:'',
            ElSend
              (JObj [(''type'', JStr ''conversation_initiation_client_data''),
                (''conversation_config_override'', JObj [(''agent'', JObj [(''prompt'',
                JObj [(''prompt'', JStr ''you are a gary from the phone store'')]),
                (''first_message'', JStr ''hey there! how can I help you today?'')])])]),
            ConsoleLog ''[ElevenLabs] Disconnected''])"
  using run_ai_closed by (simp only: handshake_defaults)

lemma run_closed_while_connecting:
  "run noObjects (fst connection) [UrlFetched, TwClosed, ElOpen] =
     Some (\<lparr>streamSid = JNull, callSid = JNull, elevenLabsWs = Some OPEN,
            customParameters = JNull, signedUrlPending = False, twilioWs = CLOSED\<rparr>,
           [NewWebSocket, ConsoleLog ''[Twilio] Client disconnected'', ConsoleLog ''[ElevenLabs] Connected to Conversational AI'', ConsoleLog ''[ElevenLabs] Sending initial config with prompt:'',
            ElSend
              (JObj [(''type'', JStr ''conversation_initiation_client_data''),
                (''conversation_config_override'', JObj [(''agent'', JObj [(''prompt'',
                JObj [(''prompt'', JStr ''you are a gary from the phone store'')]),
                (''first_message'', JStr ''hey there! how can I help you today?'')])])])])"
  by (simp add: connection_def elevenLabs_on_open_def initialConfig_frame optp_def
        twilio_on_close_def close_if_open_def)

lemma run_stop_unprintable:
  "run noObjects (fst connection)
     [UrlFetched, ElOpen, TwMessage (Json start_unprintable), TwMessage (Json stop_frame)] =
     Some (\<lparr>streamSid = JObj [(''toString'', JNum 1)], callSid = JUndefined,
            elevenLabsWs = Some OPEN, customParameters = JUndefined,
            signedUrlPending = False, twilioWs = OPEN\<rparr>,
           [NewWebSocket, ConsoleLog ''[ElevenLabs] Connected to Conversational AI'', ConsoleLog ''[ElevenLabs] Sending initial config with prompt:'',
            ElSend
              (JObj [(''type'', JStr ''conversation_initiation_client_data''),
                (''conversation_config_override'', JObj [(''agent'', JObj [(''prompt'',
                JObj [(''prompt'', JStr ''you are a gary from the phone store'')]),
                (''first_message'', JStr ''hey there! how can I help you today?'')])])]),
            ConsoleLog ''[Twilio] Received event:'',
            ConsoleError ''[Twilio] Error processing message:'',
            ConsoleLog ''[Twilio] Received event:'',
            ConsoleError ''[Twilio] Error processing message:''])"
  by (simp add: connection_def elevenLabs_on_open_def initialConfig_frame optp_def
        twilio_on_message_def twilio_start_def twilio_stop_def start_unprintable_def
        stop_frame_def getp_def tw_error_def Let_def)



lemma run_empty_chunk:
  "run noObjects (fst connection)
     [TwMessage (Json start_MZ1), UrlFetched, ElOpen, ElMessage (Json audio_empty)] =
     Some (active,
           [ConsoleLog ''[Twilio] Received event:'', ConsoleLog ''[Twilio] Stream started'',
            ConsoleLog ''[Twilio] Start parameters:'', NewWebSocket, ConsoleLog ''[ElevenLabs] Connected to Conversational AI'', ConsoleLog ''[ElevenLabs] Sending initial config with prompt:'',
            ElSend
              (JObj [(''type'', JStr ''conversation_initiation_client_data''),
                (''conversation_config_override'', JObj [(''agent'', JObj [(''prompt'',
                JObj [(''prompt'', JStr ''p'')]), (''first_message'', JStr ''hi'')])])])])"
  by (simp add: connection_def elevenLabs_on_open_def initialConfig_frame optp_def
        twilio_on_message_def twilio_start_def start_MZ1_def getp_def active_def Let_def
        el_live_def elevenLabs_on_message_def elevenLabs_switch_def audio_empty_def)

lemma run_second_start:
  "run noObjects (fst connection)
     [TwMessage (Json start_MZ1), TwMessage (Json start_MZ2), UrlFetched, ElOpen,
      ElMessage (Json audio_ZGVm)] =
     Some (\<lparr>streamSid = JStr ''MZ2'', callSid = JStr ''CA2'', elevenLabsWs = Some OPEN,
            customParameters = JUndefined, signedUrlPending = False, twilioWs = OPEN\<rparr>,
           [ConsoleLog ''[Twilio] Received event:'', ConsoleLog ''[Twilio] Stream started'',
            ConsoleLog ''[Twilio] Start parameters:'',
            ConsoleLog ''[Twilio] Received event:'', ConsoleLog ''[Twilio] Stream started'',
            ConsoleLog ''[Twilio] Start parameters:'', NewWebSocket, ConsoleLog ''[ElevenLabs] Connected to Conversational AI'', ConsoleLog ''[ElevenLabs] Sending initial config with prompt:'',
            ElSend
              (JObj [(''type'', JStr ''conversation_initiation_client_data''),
                (''conversation_config_override'', JObj [(''agent'', JObj [(''prompt'',
                JObj [(''prompt'', JStr ''you are a gary from the phone store'')]),
                (''first_message'', JStr ''hey there! how can I help you today?'')])])]),
            WsSend (JObj [(''event'', JStr ''media''), (''streamSid'', JStr ''MZ2''), (''media'', JObj [(''payload'', JStr ''ZGVm'')])])])"
  by (simp add: connection_def elevenLabs_on_open_def initialConfig_frame optp_def
        twilio_on_message_def twilio_start_def start_MZ1_def start_MZ2_def getp_def Let_def
        el_live_def elevenLabs_on_message_def elevenLabs_switch_def audio_ZGVm_def
        media_frame_def)

section \<open>Failure to bring up the AI socket\<close>

text \<open>
  C1, as the code has it. When the signed URL cannot be fetched, the socket cannot be
  constructed, or the connect fails, the handlers only log. In every run of a session
  that contains such a failure, no frame is ever sent to the telephony side (no audio is
  delivered), no further signed URL is requested (no retry), the AI socket's close is
  never called, and the telephony socket is left as it is: it is closed only by its own
  close event, never by the relay.
\<close>

theorem setup_failure_no_audio_no_retry:
  assumes "run B (fst connection) evs = Some (s, fx)" and "\<exists>e \<in> set evs. setup_failure e"
  shows "\<not> list_ex is_ws_send fx \<and> GetSignedUrl \<notin> set fx \<and> closes fx = 0
         \<and> twilioWs s = (if TwClosed \<in> set evs then CLOSED else OPEN)"
proof -
  from setup_failure_run [OF assms]
  have "\<not> list_ex is_ws_send fx \<and> GetSignedUrl \<notin> set fx \<and> closes fx = 0" by simp
  moreover from run_twilioWs [OF assms(1)]
  have "twilioWs s = (if TwClosed \<in> set evs then CLOSED else OPEN)"
    by (simp add: connection_def)
  ultimately show ?thesis by simp
qed

theorem setup_failure_no_audio_no_retry_witness:
  "run noObjects (fst connection) [UrlFetched, ElConnectFailed] =
     Some (\<lparr>streamSid = JNull, callSid = JNull, elevenLabsWs = Some CLOSED,
            customParameters = JNull, signedUrlPending = False, twilioWs = OPEN\<rparr>,
           [NewWebSocket, ConsoleError ''[ElevenLabs] WebSocket error:'',
            ConsoleLog ''[ElevenLabs] Disconnected''])
   \<and> (\<exists>e \<in> set [UrlFetched, ElConnectFailed]. setup_failure e)
   \<and> \<not> list_ex is_ws_send [NewWebSocket, ConsoleError ''[ElevenLabs] WebSocket error:'',
                            ConsoleLog ''[ElevenLabs] Disconnected'']
   \<and> closes [NewWebSocket, ConsoleError ''[ElevenLabs] WebSocket error:'',
              ConsoleLog ''[ElevenLabs] Disconnected''] = 0"
proof -
  have f: "\<exists>e \<in> set [UrlFetched, ElConnectFailed]. setup_failure e" by simp
  from setup_failure_no_audio_no_retry [OF run_connect_failed f] run_connect_failed f
  show ?thesis by simp
qed

text \<open>
  C1 as stated fails: after a failed fetch of the signed URL the telephony socket is still
  open and nothing was done to it; the handler has logged and that is all.
\<close>

theorem setup_failure_leaves_telephony_open:
  "run noObjects (fst connection) [UrlFetchFailed] =
     Some (\<lparr>streamSid = JNull, callSid = JNull, elevenLabsWs = None, customParameters = JNull,
            signedUrlPending = False, twilioWs = OPEN\<rparr>,
           [ConsoleError ''Error getting signed URL:'', ConsoleError ''[ElevenLabs] Setup error:''])"
  by (rule run_fetch_failed)

section \<open>Closing the counterpart\<close>

text \<open>
  C2, as the code has it. When the telephony socket closes while the AI socket is open,
  the AI socket's close is called within that same handler; so it is when a Stop is
  processed while the AI socket is open, provided the stored stream identifier can be
  converted to a string, so that the log line before the close is written. In the other
  direction nothing is done: when the AI socket closes or reports an error the handler
  only logs, and the telephony socket stays as it was. When the telephony side closes or
  stops while the AI socket is not open (null or still connecting), no close is called.
\<close>

theorem counterpart_closed_one_way:
  assumes "twilioWs s = OPEN" and "stop_event msg"
  shows "(elevenLabsWs s = Some OPEN \<longrightarrow>
            step B s TwClosed =
              Some (s\<lparr>twilioWs := CLOSED, elevenLabsWs := Some CLOSING\<rparr>,
                    [ConsoleLog ''[Twilio] Client disconnected'', ElCloseCall])
            \<and> (\<not> toStringThrows (streamSid s) \<longrightarrow>
                step B s (TwMessage (Json msg)) =
                  Some (s\<lparr>elevenLabsWs := Some CLOSING\<rparr>,
                        [ConsoleLog ''[Twilio] Received event:'',
                         ConsoleLog ''[Twilio] Stream ended'', ElCloseCall])))
       \<and> (elevenLabsWs s = Some OPEN \<or> elevenLabsWs s = Some CLOSING \<longrightarrow>
            step B s ElClosed =
              Some (s\<lparr>elevenLabsWs := Some CLOSED\<rparr>, [ConsoleLog ''[ElevenLabs] Disconnected''])
            \<and> step B s ElError =
              Some (s\<lparr>elevenLabsWs := Some CLOSING\<rparr>,
                    [ConsoleError ''[ElevenLabs] WebSocket error:'']))
       \<and> (elevenLabsWs s \<noteq> Some OPEN \<longrightarrow>
            step B s TwClosed =
              Some (s\<lparr>twilioWs := CLOSED\<rparr>, [ConsoleLog ''[Twilio] Client disconnected''])
            \<and> step B s (TwMessage (Json msg)) =
              Some (s, if toStringThrows (streamSid s)
                       then [ConsoleLog ''[Twilio] Received event:'',
                             ConsoleError ''[Twilio] Error processing message:'']
                       else [ConsoleLog ''[Twilio] Received event:'',
                             ConsoleLog ''[Twilio] Stream ended'']))"
  using assms
  by (simp add: twilio_on_close_def close_if_open_def twilio_on_message_def twilio_stop_def
        stop_event_def el_live_def tw_error_def)

theorem counterpart_closed_one_way_witness:
  "twilioWs active = OPEN \<and> stop_event stop_frame \<and> \<not> toStringThrows (streamSid active)
   \<and> elevenLabsWs active = Some OPEN
   \<and> step noObjects active TwClosed =
       Some (active\<lparr>twilioWs := CLOSED, elevenLabsWs := Some CLOSING\<rparr>,
             [ConsoleLog ''[Twilio] Client disconnected'', ElCloseCall])
   \<and> step noObjects active (TwMessage (Json stop_frame)) =
       Some (active\<lparr>elevenLabsWs := Some CLOSING\<rparr>,
             [ConsoleLog ''[Twilio] Received event:'', ConsoleLog ''[Twilio] Stream ended'',
              ElCloseCall])
   \<and> step noObjects active ElClosed =
       Some (active\<lparr>elevenLabsWs := Some CLOSED\<rparr>, [ConsoleLog ''[ElevenLabs] Disconnected''])"
proof -
  have a: "twilioWs active = OPEN" and c: "\<not> toStringThrows (streamSid active)"
    and d: "elevenLabsWs active = Some OPEN"
    by (simp_all add: active_def)
  from counterpart_closed_one_way [OF a stop_frame_event, of noObjects] a c d stop_frame_event
  show ?thesis by simp
qed

text \<open>
  C2 as stated fails, in three runs. The AI socket opens and then closes: the session is
  left with the AI side CLOSED and the telephony socket OPEN, and no handler has touched
  the telephony socket. The telephony socket closes while the AI socket is still
  connecting: no close is called, the AI socket then opens and stays OPEN beside a CLOSED
  telephony socket. A Stop arrives while the AI socket is open and the stored stream
  identifier is an object with a property toString: the log line throws, and the AI
  socket's close is not called.
\<close>

theorem ai_close_leaves_telephony_open:
  "run noObjects (fst connection) [UrlFetched, ElOpen, ElClosed] =
     Some (\<lparr>streamSid = JNull, callSid = JNull, elevenLabsWs = Some CLOSED,
            customParameters = JNull, signedUrlPending = False, twilioWs = OPEN\<rparr>,
           [NewWebSocket, ConsoleLog ''[ElevenLabs] Connected to Conversational AI'', ConsoleLog ''[ElevenLabs] Sending initial config with prompt:'',
            ElSend
              (JObj [(''type'', JStr ''conversation_initiation_client_data''),
                (''conversation_config_override'', JObj [(''agent'', JObj [(''prompt'',
                JObj [(''prompt'', JStr ''you are a gary from the phone store'')]),
                (''first_message'', JStr ''hey there! how can I help you today?'')])])]),
            ConsoleLog ''[ElevenLabs] Disconnected''])
   \<and> run noObjects (fst connection) [UrlFetched, TwClosed, ElOpen] =
     Some (\<lparr>streamSid = JNull, callSid = JNull, elevenLabsWs = Some OPEN,
            customParameters = JNull, signedUrlPending = False, twilioWs = CLOSED\<rparr>,
           [NewWebSocket, ConsoleLog ''[Twilio] Client disconnected'', ConsoleLog ''[ElevenLabs] Connected to Conversational AI'', ConsoleLog ''[ElevenLabs] Sending initial config with prompt:'',
            ElSend
              (JObj [(''type'', JStr ''conversation_initiation_client_data''),
                (''conversation_config_override'', JObj [(''agent'', JObj [(''prompt'',
                JObj [(''prompt'', JStr ''you are a gary from the phone store'')]),
                (''first_message'', JStr ''hey there! how can I help you today?'')])])])])
   \<and> run noObjects (fst connection)
       [UrlFetched, ElOpen, TwMessage (Json start_unprintable), TwMessage (Json stop_frame)] =
     Some (\<lparr>streamSid = JObj [(''toString'', JNum 1)], callSid = JUndefined,
            elevenLabsWs = Some OPEN, customParameters = JUndefined,
            signedUrlPending = False, twilioWs = OPEN\<rparr>,
           [NewWebSocket, ConsoleLog ''[ElevenLabs] Connected to Conversational AI'', ConsoleLog ''[ElevenLabs] Sending initial config with prompt:'',
            ElSend
              (JObj [(''type'', JStr ''conversation_initiation_client_data''),
                (''conversation_config_override'', JObj [(''agent'', JObj [(''prompt'',
                JObj [(''prompt'', JStr ''you are a gary from the phone store'')]),
                (''first_message'', JStr ''hey there! how can I help you today?'')])])]),
            ConsoleLog ''[Twilio] Received event:'',
            ConsoleError ''[Twilio] Error processing message:'',
            ConsoleLog ''[Twilio] Received event:'',
            ConsoleError ''[Twilio] Error processing message:''])"
  by (rule conjI [OF run_ai_closed_frames conjI [OF run_closed_while_connecting
        run_stop_unprintable]])

section \<open>Start and the handshake\<close>




section \<open>Telephony media\<close>

lemma media_QUJD_event: "media_event media_QUJD (JStr ''QUJD'')"
  by (simp add: media_event_def media_QUJD_def getp_def)

text \<open>
  C4, as the code has it. A media event whose payload is a string is answered, while the
  AI socket is open, by exactly one \<^verbatim>\<open>user_audio_chunk\<close> message; its payload is the
  incoming payload decoded and encoded again, which is the incoming payload itself
  whenever that is the base64 encoding of some bytes. When the AI socket is not open
  nothing is sent and nothing is kept; the session is unchanged in both cases.
\<close>

theorem media_reencoded:
  assumes "media_event msg (JStr p)"
  shows "twilio_on_message B s (Json msg) =
           (s, if elevenLabsWs s = Some OPEN
               then [ElSend (JObj [(''user_audio_chunk'', JStr (b64encode (b64decode p)))])]
               else [])
         \<and> (\<forall>bs. p = b64encode bs \<longrightarrow> b64encode (b64decode p) = p)"
  using assms
  by (simp add: twilio_on_message_def twilio_media_def media_event_def b64_roundtrip)

theorem media_reencoded_witness:
  "media_event media_QUJD (JStr ''QUJD'') \<and> ''QUJD'' = b64encode [0x41, 0x42, 0x43]
   \<and> twilio_on_message noObjects active (Json media_QUJD) =
       (active, [ElSend (JObj [(''user_audio_chunk'', JStr ''QUJD'')])])"
proof -
  have o: "elevenLabsWs active = Some OPEN" by (simp add: active_def)
  have e: "''QUJD'' = b64encode [0x41, 0x42, 0x43]" by (simp only: enc_ABC)
  note m = media_reencoded [OF media_QUJD_event, of noObjects active]
  from m e have r: "b64encode (b64decode ''QUJD'') = ''QUJD''" by blast
  from m o have "twilio_on_message noObjects active (Json media_QUJD) =
       (active, [ElSend (JObj [(''user_audio_chunk'', JStr (b64encode (b64decode ''QUJD'')))])])"
    by simp
  with r e media_QUJD_event show ?thesis by (simp only: simp_thms)
qed

text \<open>
  C4 as stated fails: the payload \<^verbatim>\<open>QUJ=\<close> (well-formed base64 whose last digit has
  spare bits set) is forwarded as \<^verbatim>\<open>QUI=\<close>.
\<close>

theorem media_payload_modified:
  "step noObjects active (TwMessage (Json media_QUJ)) =
     Some (active, [ElSend (JObj [(''user_audio_chunk'', JStr ''QUI='')])])"
  by (simp add: active_def twilio_on_message_def twilio_media_def media_QUJ_def getp_def
        reencode_QUJ)

section \<open>Keepalive\<close>

text \<open>
  C5, as the code has it. A ping whose event identifier is truthy is answered by exactly
  one pong carrying that identifier; the pong is the handler's only effect, so nothing
  precedes it and nothing goes to the telephony side, and the session is unchanged.
\<close>

theorem ping_answered_by_pong:
  assumes "ping_message message" and "truthy (ping_id message)"
  shows "elevenLabs_on_message s (Json message) =
           (s, [ElSend (JObj [(''type'', JStr ''pong''), (''event_id'', ping_id message)])])"
  using assms
  by (simp add: elevenLabs_on_message_def elevenLabs_switch_def ping_message_def ping_id_def
        pong_frame_def)

theorem ping_answered_by_pong_witness:
  "ping_message ping_7 \<and> truthy (ping_id ping_7)
   \<and> elevenLabs_on_message active (Json ping_7) =
       (active, [ElSend (JObj [(''type'', JStr ''pong''), (''event_id'', JNum 7)])])"
proof -
  have a: "ping_message ping_7" by (simp add: ping_message_def ping_7_def getp_def)
  have b: "ping_id ping_7 = JNum 7" by (simp add: ping_id_def ping_7_def optp_def)
  then have c: "truthy (ping_id ping_7)" by simp
  from ping_answered_by_pong [OF a c, of active] a b show ?thesis
    by simp
qed

text \<open>
  C5 as stated fails: a ping with event identifier 0, arriving on the open AI socket,
  gets no pong.
\<close>

theorem ping_zero_unanswered:
  "step noObjects active (ElMessage (Json ping_0)) = Some (active, [])"
  by (simp add: active_def el_live_def elevenLabs_on_message_def elevenLabs_switch_def
        ping_0_def getp_def optp_def)

text \<open>
  C10. A ping whose event identifier is absent or falsy (0, the empty string, null,
  false) gets no pong: the handler sends nothing on either socket, logs nothing, raises
  nothing and leaves the session as it was.
\<close>

theorem ping_without_id_ignored:
  assumes "ping_message message" and "\<not> truthy (ping_id message)"
  shows "elevenLabs_on_message s (Json message) = (s, [])"
  using assms
  by (simp add: elevenLabs_on_message_def elevenLabs_switch_def ping_message_def ping_id_def)

theorem ping_without_id_ignored_witness:
  "ping_message (JObj [(''type'', JStr ''ping'')])
   \<and> \<not> truthy (ping_id (JObj [(''type'', JStr ''ping'')]))
   \<and> elevenLabs_on_message (fst connection) (Json (JObj [(''type'', JStr ''ping'')]))
       = (fst connection, [])"
proof -
  have a: "ping_message (JObj [(''type'', JStr ''ping'')])"
    by (simp add: ping_message_def getp_def)
  have b: "\<not> truthy (ping_id (JObj [(''type'', JStr ''ping'')]))"
    by (simp add: ping_id_def optp_def)
  from a b ping_without_id_ignored [OF a b, of "fst connection"] show ?thesis by simp
qed

section \<open>AI audio and the stream identifier\<close>

lemma audio_ZGVm_message: "audio_message audio_ZGVm"
  by (simp add: audio_message_def audio_ZGVm_def getp_def)

lemma audio_ZGVm_payload: "audio_payload audio_ZGVm = JStr ''ZGVm''"
  by (simp add: audio_payload_def audio_ZGVm_def optp_def)

text \<open>
  C6, as the code has it. After a valid Start (one whose streamSid is truthy) the
  session's stream identifier is the Start's, and it stays so through every later event
  that is not another Start. An AI audio message with a non-empty chunk that arrives
  then is answered by exactly one telephony media frame with that stream identifier and
  the chunk as payload.
\<close>

theorem start_then_audio_forwarded:
  assumes "start_event msg" and "truthy (jsprop (jsprop msg ''start'') ''streamSid'')"
    and "step B s (TwMessage (Json msg)) = Some (s1, fx1)"
    and "run B s1 evs = Some (s2, fx2)" and "\<forall>e \<in> set evs. \<not> is_start e"
    and "audio_message message" and "truthy (audio_payload message)"
  shows "streamSid s1 = jsprop (jsprop msg ''start'') ''streamSid''
       \<and> streamSid s2 = jsprop (jsprop msg ''start'') ''streamSid''
       \<and> elevenLabs_on_message s2 (Json message) =
           (s2, [WsSend (JObj [(''event'', JStr ''media''),
                               (''streamSid'', jsprop (jsprop msg ''start'') ''streamSid''),
                               (''media'', JObj [(''payload'', audio_payload message)])])])"
proof -
  from assms(3) have tw: "twilio_on_message B s (Json msg) = (s1, fx1)"
    by (simp split: if_splits)
  from assms(1) tw have s1: "streamSid s1 = jsprop (jsprop msg ''start'') ''streamSid''"
    by (auto simp add: twilio_on_message_def twilio_start_def start_event_def getp_def Let_def
        split: if_splits)
  from run_ids [OF assms(5) assms(4)] s1
  have s2: "streamSid s2 = jsprop (jsprop msg ''start'') ''streamSid''" by simp
  from assms(6) assms(7) assms(2) s2
  have "elevenLabs_on_message s2 (Json message) =
          (s2, [WsSend (JObj [(''event'', JStr ''media''), (''streamSid'', streamSid s2),
                              (''media'', JObj [(''payload'', audio_payload message)])])])"
    by (auto simp add: elevenLabs_on_message_def elevenLabs_switch_def audio_message_def
        audio_payload_def media_frame_def split: if_splits)
  with s1 s2 show ?thesis by simp
qed

theorem start_then_audio_forwarded_witness:
  "start_event start_MZ1 \<and> truthy (jsprop (jsprop start_MZ1 ''start'') ''streamSid'')
   \<and> \<not> is_start UrlFetched \<and> \<not> is_start ElOpen
   \<and> audio_message audio_ZGVm \<and> truthy (audio_payload audio_ZGVm)
   \<and> elevenLabs_on_message active (Json audio_ZGVm) =
       (active, [WsSend (JObj [(''event'', JStr ''media''), (''streamSid'', JStr ''MZ1''),
                               (''media'', JObj [(''payload'', JStr ''ZGVm'')])])])"
proof -
  have v: "truthy (jsprop (jsprop start_MZ1 ''start'') ''streamSid'')"
    by (simp add: start_MZ1_def)
  have n: "\<forall>e \<in> set [UrlFetched, ElOpen]. \<not> is_start e" by simp
  have p: "truthy (audio_payload audio_ZGVm)" by (simp add: audio_ZGVm_payload)
  from start_then_audio_forwarded
         [OF start_MZ1_event v step_start_MZ1 run_fetch_open n audio_ZGVm_message p]
    start_MZ1_event v n audio_ZGVm_message p
  show ?thesis
    by (simp add: start_MZ1_def audio_ZGVm_payload)
qed

text \<open>
  C6 as stated fails, in two runs. After the valid Start \<open>MZ1\<close> and the opening of the AI
  socket, an audio message whose chunk is the empty string produces no telephony frame.
  After the valid Start \<open>MZ1\<close> and a second Start \<open>MZ2\<close>, the audio chunk \<open>ZGVm\<close> goes
  out with the stream identifier \<open>MZ2\<close>, not with that of the first Start.
\<close>

theorem empty_chunk_or_second_start:
  "run noObjects (fst connection)
     [TwMessage (Json start_MZ1), UrlFetched, ElOpen, ElMessage (Json audio_empty)] =
     Some (active,
           [ConsoleLog ''[Twilio] Received event:'', ConsoleLog ''[Twilio] Stream started'',
            ConsoleLog ''[Twilio] Start parameters:'', NewWebSocket, ConsoleLog ''[ElevenLabs] Connected to Conversational AI'', ConsoleLog ''[ElevenLabs] Sending initial config with prompt:'',
            ElSend
              (JObj [(''type'', JStr ''conversation_initiation_client_data''),
                (''conversation_config_override'', JObj [(''agent'', JObj [(''prompt'',
                JObj [(''prompt'', JStr ''p'')]), (''first_message'', JStr ''hi'')])])])])
   \<and> run noObjects (fst connection)
     [TwMessage (Json start_MZ1), TwMessage (Json start_MZ2), UrlFetched, ElOpen,
      ElMessage (Json audio_ZGVm)] =
     Some (\<lparr>streamSid = JStr ''MZ2'', callSid = JStr ''CA2'', elevenLabsWs = Some OPEN,
            customParameters = JUndefined, signedUrlPending = False, twilioWs = OPEN\<rparr>,
           [ConsoleLog ''[Twilio] Received event:'', ConsoleLog ''[Twilio] Stream started'',
            ConsoleLog ''[Twilio] Start parameters:'',
            ConsoleLog ''[Twilio] Received event:'', ConsoleLog ''[Twilio] Stream started'',
            ConsoleLog ''[Twilio] Start parameters:'', NewWebSocket, ConsoleLog ''[ElevenLabs] Connected to Conversational AI'', ConsoleLog ''[ElevenLabs] Sending initial config with prompt:'',
            ElSend
              (JObj [(''type'', JStr ''conversation_initiation_client_data''),
                (''conversation_config_override'', JObj [(''agent'', JObj [(''prompt'',
                JObj [(''prompt'', JStr ''you are a gary from the phone store'')]),
                (''first_message'', JStr ''hey there! how can I help you today?'')])])]),
            WsSend (JObj [(''event'', JStr ''media''), (''streamSid'', JStr ''MZ2''), (''media'', JObj [(''payload'', JStr ''ZGVm'')])])])"
  by (rule conjI [OF run_empty_chunk run_second_start])

text \<open>
  C7. An AI audio or interruption message that arrives while the stream identifier is not
  known (null, or otherwise falsy) is dropped: no frame goes out on either socket, nothing
  is raised (no error is logged; for audio one log line is written), the session is left
  exactly as it was, and the rest of the run is what it would have been without the
  message, so nothing is delivered later.
\<close>

theorem early_ai_event_dropped:
  assumes "audio_message m \<or> interruption_message m" and "\<not> truthy (streamSid s)"
  shows "elevenLabs_on_message s (Json m) =
           (s, if audio_message m
               then [ConsoleLog ''[ElevenLabs] Received audio but no StreamSid yet''] else [])
       \<and> (el_live s \<longrightarrow>
            run B s (ElMessage (Json m) # evs) =
              map_option
                (\<lambda>(t, fx). (t, (if audio_message m
                                 then [ConsoleLog ''[ElevenLabs] Received audio but no StreamSid yet'']
                                 else []) @ fx))
                (run B s evs))"
proof -
  from assms have h: "elevenLabs_on_message s (Json m) =
           (s, if audio_message m
               then [ConsoleLog ''[ElevenLabs] Received audio but no StreamSid yet''] else [])"
    by (auto simp add: elevenLabs_on_message_def elevenLabs_switch_def audio_message_def
        interruption_message_def)
  then show ?thesis
    by (cases "run B s evs") auto
qed

theorem early_ai_event_dropped_witness:
  "(audio_message audio_ZGVm \<or> interruption_message audio_ZGVm)
   \<and> \<not> truthy (streamSid (fst connection))
   \<and> elevenLabs_on_message (fst connection) (Json audio_ZGVm) =
       (fst connection, [ConsoleLog ''[ElevenLabs] Received audio but no StreamSid yet''])"
proof -
  have a: "audio_message audio_ZGVm \<or> interruption_message audio_ZGVm"
    by (simp add: audio_ZGVm_message)
  have b: "\<not> truthy (streamSid (fst connection))" by (simp add: connection_def)
  from early_ai_event_dropped [OF a b, of noObjects "[]"] a b audio_ZGVm_message
  show ?thesis by simp
qed

section \<open>Stop\<close>

lemma second_stop:
  assumes "stop_event msg" and "twilio_on_message B t (Json msg) = (t1, fx1)"
  shows "twilio_on_message B t1 (Json msg) = (t1, filter (\<lambda>e. e \<noteq> ElCloseCall) fx1)"
  using assms
  by (auto simp add: twilio_on_message_def twilio_stop_def stop_event_def close_if_open_def
      tw_error_def split: if_splits)

text \<open>
  C8. A second Stop does what the first did except for the close: it leaves the session
  as the first Stop left it and its effects are the first one's log lines without the
  call of the AI socket's close. In every run of a session the AI socket's close is called
  at most once.
\<close>

theorem stop_idempotent_close_once:
  assumes "stop_event msg" and "run B (fst connection) evs = Some (s, fx)"
  shows "closes fx \<le> 1
       \<and> (\<forall>t t1 fx1. twilio_on_message B t (Json msg) = (t1, fx1) \<longrightarrow>
            twilio_on_message B t1 (Json msg) = (t1, filter (\<lambda>e. e \<noteq> ElCloseCall) fx1))"
  using run_closes_once [OF connection_url_settled assms(2)] second_stop [OF assms(1)]
  by blast

theorem stop_idempotent_close_once_witness:
  "stop_event stop_frame
   \<and> run noObjects (fst connection)
       [UrlFetched, ElOpen, TwMessage (Json stop_frame), TwMessage (Json stop_frame), TwClosed] =
       Some (\<lparr>streamSid = JNull, callSid = JNull, elevenLabsWs = Some CLOSING,
              customParameters = JNull, signedUrlPending = False, twilioWs = CLOSED\<rparr>,
             [NewWebSocket, ConsoleLog ''[ElevenLabs] Connected to Conversational AI'',
              ConsoleLog ''[ElevenLabs] Sending initial config with prompt:'',
              ElSend (handshake (JStr default_prompt) (JStr default_first_message)),
              ConsoleLog ''[Twilio] Received event:'', ConsoleLog ''[Twilio] Stream ended'',
              ElCloseCall,
              ConsoleLog ''[Twilio] Received event:'', ConsoleLog ''[Twilio] Stream ended'',
              ConsoleLog ''[Twilio] Client disconnected''])
   \<and> closes [NewWebSocket, ConsoleLog ''[ElevenLabs] Connected to Conversational AI'',
              ConsoleLog ''[ElevenLabs] Sending initial config with prompt:'',
              ElSend (handshake (JStr default_prompt) (JStr default_first_message)),
              ConsoleLog ''[Twilio] Received event:'', ConsoleLog ''[Twilio] Stream ended'',
              ElCloseCall,
              ConsoleLog ''[Twilio] Received event:'', ConsoleLog ''[Twilio] Stream ended'',
              ConsoleLog ''[Twilio] Client disconnected''] \<le> 1"
  using stop_idempotent_close_once [OF stop_frame_event run_two_stops] stop_frame_event
    run_two_stops
  by blast

section \<open>The timeout of the speech path\<close>

lemma speech_step_waiting:
  assumes "\<not> settles e" and "speech_step s e = Some (s', fx)"
    and "conversationPromise s = Pending" and "timerPending s"
  shows "conversationPromise s' = Pending \<and> timerPending s' \<and> (\<forall>r. SpReply r \<notin> set fx)"
proof (cases e)
  case (SpMessage d)
  show ?thesis
  proof (cases d)
    case Malformed
    with SpMessage assms show ?thesis
      by (auto simp add: speech_on_message_def split: if_splits)
  next
    case (Json m)
    with SpMessage assms show ?thesis
      by (auto simp add: speech_on_message_def split: if_splits option.splits)
  qed
qed (use assms in \<open>auto simp add: speech_on_open_def split: if_splits\<close>)

lemma speech_run_waiting:
  "\<forall>e \<in> set evs. \<not> settles e \<Longrightarrow> speech_run s evs = Some (s', fx) \<Longrightarrow>
     conversationPromise s = Pending \<Longrightarrow> timerPending s \<Longrightarrow>
     conversationPromise s' = Pending \<and> timerPending s' \<and> (\<forall>r. SpReply r \<notin> set fx)"
proof (induction evs arbitrary: s s' fx)
  case Nil
  then show ?case by simp
next
  case (Cons e es)
  from Cons.prems(2) obtain s1 fx1 s2 fx2 where
    st: "speech_step s e = Some (s1, fx1)" and rn: "speech_run s1 es = Some (s2, fx2)"
    and eq: "fx = fx1 @ fx2" "s' = s2"
    by (auto split: option.splits)
  from Cons.prems(1) have a: "\<not> settles e" and b: "\<forall>e \<in> set es. \<not> settles e" by simp_all
  from speech_step_waiting [OF a st Cons.prems(3) Cons.prems(4)]
  have w: "conversationPromise s1 = Pending" "timerPending s1" "\<forall>r. SpReply r \<notin> set fx1"
    by simp_all
  from Cons.IH [OF b rn w(1) w(2)] w(3) eq show ?case by simp
qed

lemma speech_step_timer:
  assumes "e \<noteq> SpTimeout" and "speech_step s e = Some (s', fx)" and "timerPending s"
  shows "timerPending s'"
proof (cases e)
  case (SpMessage d)
  with assms show ?thesis
    by (auto simp add: speech_on_message_def resolve_def
        split: if_splits frame.splits option.splits prod.splits)
qed (use assms in \<open>auto simp add: speech_on_open_def speech_on_error_def reject_def
      split: if_splits prod.splits\<close>)

lemma speech_run_timer:
  "SpTimeout \<notin> set evs \<Longrightarrow> speech_run s evs = Some (s', fx) \<Longrightarrow> timerPending s \<Longrightarrow>
     timerPending s'"
proof (induction evs arbitrary: s s' fx)
  case Nil
  then show ?case by simp
next
  case (Cons e es)
  from Cons.prems(2) obtain s1 fx1 s2 fx2 where
    st: "speech_step s e = Some (s1, fx1)" and rn: "speech_run s1 es = Some (s2, fx2)"
    and eq: "s' = s2"
    by (auto split: option.splits)
  from Cons.prems(1) have a: "e \<noteq> SpTimeout" and b: "SpTimeout \<notin> set es" by auto
  from Cons.IH [OF b rn speech_step_timer [OF a st Cons.prems(3)]] eq show ?case by simp
qed

lemma speech_timer_fires:
  assumes "timerPending t"
  shows "\<exists>t' hx. speech_step t SpTimeout = Some (t', hx)
                 \<and> conversationPromise t' \<noteq> Pending \<and> SpClose \<in> set hx"
  using assms
  by (auto simp add: speech_on_timeout_def reject_def)

lemma speech_run_metadata:
  "speech_run \<lparr>speechResult = JStr ''hello'', conversationPromise = Pending, speechWs = CONNECTING, timerPending = True\<rparr>
     [SpOpen, SpMessage (Json metadata_message)] =
     Some (\<lparr>speechResult = JStr ''hello'', conversationPromise = Pending, speechWs = OPEN,
            timerPending = True\<rparr>,
           [SpLog ''WebSocket connected'',
            SpSend (JObj [(''type'', JStr ''conversation_initiation_client_data''),
              (''conversation_config_override'',
               JObj [(''agent'',
                 JObj [(''prompt'', JObj [(''prompt'', JStr ''you are a helpful AI assistant'')])])])]),
            SpLog ''Sending text message:'',
            SpSend (JObj [(''type'', JStr ''text''), (''text'', JStr ''hello'')]),
            SpLog ''Received message type:''])"
  by (simp add: speech_on_open_def speech_config_def speech_on_message_def metadata_message_def
        getp_def)

text \<open>
  C9. The handler of \<^verbatim>\<open>/process-speech\<close>, once it has its socket, sets a timer for 10000
  milliseconds and waits with a pending promise. As long as no audio response and no
  socket error has arrived, the promise is still pending, the timer is still set and no
  reply has been sent; when the timer then fires, the socket's close is called, the wait
  ends by rejection, and the handler's catch block replies with the error document: a
  spoken apology followed by a hang-up. Whatever has arrived before, the timer is still
  set until it fires, and its firing calls close and leaves no pending promise behind.
\<close>

theorem speech_timeout_error_reply:
  assumes "speech_run \<lparr>speechResult = sr, conversationPromise = Pending, speechWs = CONNECTING, timerPending = True\<rparr> evs = Some (s, fx)"
    and "\<forall>e \<in> set evs. \<not> settles e"
  shows "process_speech sr Connected =
           (Some \<lparr>speechResult = sr, conversationPromise = Pending, speechWs = CONNECTING, timerPending = True\<rparr>,
            [SpNewWebSocket, SpSetTimeout 10000])
       \<and> conversationPromise s = Pending \<and> timerPending s \<and> (\<forall>r. SpReply r \<notin> set fx)
       \<and> (\<exists>s'. speech_step s SpTimeout =
                  Some (s', [SpClose, SpError ''Error processing speech:'', SpReply [Say ''Sorry, there was an error processing your request.'', Hangup]])
                \<and> conversationPromise s' = Rejected \<and> \<not> timerPending s'
                \<and> (speechWs s' = CLOSING \<or> speechWs s' = CLOSED))
       \<and> (\<forall>evs' t gx.
            speech_run \<lparr>speechResult = sr, conversationPromise = Pending, speechWs = CONNECTING, timerPending = True\<rparr> evs' = Some (t, gx) \<and> SpTimeout \<notin> set evs' \<longrightarrow>
            timerPending t
            \<and> (\<exists>t' hx. speech_step t SpTimeout = Some (t', hx)
                        \<and> conversationPromise t' \<noteq> Pending \<and> SpClose \<in> set hx))"
proof -
  have p: "process_speech sr Connected =
           (Some \<lparr>speechResult = sr, conversationPromise = Pending, speechWs = CONNECTING, timerPending = True\<rparr>,
            [SpNewWebSocket, SpSetTimeout 10000])"
    by (simp add: process_speech_def)
  from speech_run_waiting [OF assms(2) assms(1)]
  have w: "conversationPromise s = Pending" "timerPending s" "\<forall>r. SpReply r \<notin> set fx"
    by simp_all
  have c: "speechWs (s\<lparr>timerPending := False, speechWs := closing (speechWs s),
                        conversationPromise := Rejected\<rparr>) = CLOSING
           \<or> speechWs (s\<lparr>timerPending := False, speechWs := closing (speechWs s),
                          conversationPromise := Rejected\<rparr>) = CLOSED"
    by (cases "speechWs s") simp_all
  from w have f: "speech_step s SpTimeout =
      Some (s\<lparr>timerPending := False, speechWs := closing (speechWs s),
              conversationPromise := Rejected\<rparr>,
            [SpClose, SpError ''Error processing speech:'', SpReply [Say ''Sorry, there was an error processing your request.'', Hangup]])"
    by (simp add: speech_on_timeout_def reject_def speech_catch_def error_response_def)
  have e: "\<exists>s'. speech_step s SpTimeout =
                  Some (s', [SpClose, SpError ''Error processing speech:'', SpReply [Say ''Sorry, there was an error processing your request.'', Hangup]])
                \<and> conversationPromise s' = Rejected \<and> \<not> timerPending s'
                \<and> (speechWs s' = CLOSING \<or> speechWs s' = CLOSED)"
    using f c by (intro exI [of _ "s\<lparr>timerPending := False, speechWs := closing (speechWs s),
              conversationPromise := Rejected\<rparr>"]) simp
  have g: "timerPending t
            \<and> (\<exists>t' hx. speech_step t SpTimeout = Some (t', hx)
                        \<and> conversationPromise t' \<noteq> Pending \<and> SpClose \<in> set hx)"
    if "speech_run \<lparr>speechResult = sr, conversationPromise = Pending, speechWs = CONNECTING, timerPending = True\<rparr> evs' = Some (t, gx)" and "SpTimeout \<notin> set evs'" for evs' t gx
  proof -
    from speech_run_timer [OF that(2) that(1)] have "timerPending t" by simp
    with speech_timer_fires [of t] show ?thesis by simp
  qed
  from p w e g show ?thesis by blast
qed

theorem speech_timeout_error_reply_witness:
  "speech_run \<lparr>speechResult = JStr ''hello'', conversationPromise = Pending, speechWs = CONNECTING, timerPending = True\<rparr>
     [SpOpen, SpMessage (Json metadata_message)] =
     Some (waiting,
           [SpLog ''WebSocket connected'',
            SpSend (JObj [(''type'', JStr ''conversation_initiation_client_data''),
              (''conversation_config_override'',
               JObj [(''agent'',
                 JObj [(''prompt'', JObj [(''prompt'', JStr ''you are a helpful AI assistant'')])])])]),
            SpLog ''Sending text message:'',
            SpSend (JObj [(''type'', JStr ''text''), (''text'', JStr ''hello'')]),
            SpLog ''Received message type:''])
   \<and> \<not> settles SpOpen \<and> \<not> settles (SpMessage (Json metadata_message))
   \<and> process_speech (JStr ''hello'') Connected =
       (Some \<lparr>speechResult = JStr ''hello'', conversationPromise = Pending, speechWs = CONNECTING, timerPending = True\<rparr>,
        [SpNewWebSocket, SpSetTimeout 10000])
   \<and> speech_step waiting SpTimeout =
       Some (\<lparr>speechResult = JStr ''hello'', conversationPromise = Rejected, speechWs = CLOSING,
              timerPending = False\<rparr>,
             [SpClose, SpError ''Error processing speech:'', SpReply [Say ''Sorry, there was an error processing your request.'', Hangup]])"
proof -
  have r: "speech_run \<lparr>speechResult = JStr ''hello'', conversationPromise = Pending, speechWs = CONNECTING, timerPending = True\<rparr>
     [SpOpen, SpMessage (Json metadata_message)] =
     Some (waiting,
           [SpLog ''WebSocket connected'',
            SpSend (JObj [(''type'', JStr ''conversation_initiation_client_data''),
              (''conversation_config_override'',
               JObj [(''agent'',
                 JObj [(''prompt'', JObj [(''prompt'', JStr ''you are a helpful AI assistant'')])])])]),
            SpLog ''Sending text message:'',
            SpSend (JObj [(''type'', JStr ''text''), (''text'', JStr ''hello'')]),
            SpLog ''Received message type:''])"
    using speech_run_metadata by (simp only: waiting_def)
  have n1: "\<not> settles SpOpen" by simp
  have n2: "\<not> settles (SpMessage (Json metadata_message))"
    by (simp add: metadata_message_def getp_def)
  from n1 n2 have n: "\<forall>e \<in> set [SpOpen, SpMessage (Json metadata_message)]. \<not> settles e"
    by simp
  note th = speech_timeout_error_reply [OF r n]
  from th have p: "process_speech (JStr ''hello'') Connected =
       (Some \<lparr>speechResult = JStr ''hello'', conversationPromise = Pending, speechWs = CONNECTING, timerPending = True\<rparr>,
        [SpNewWebSocket, SpSetTimeout 10000])" by blast
  from th obtain s' where
    "speech_step waiting SpTimeout =
       Some (s', [SpClose, SpError ''Error processing speech:'', SpReply [Say ''Sorry, there was an error processing your request.'', Hangup]])" by blast
  then have t: "speech_step waiting SpTimeout =
       Some (\<lparr>speechResult = JStr ''hello'', conversationPromise = Rejected, speechWs = CLOSING,
              timerPending = False\<rparr>,
             [SpClose, SpError ''Error processing speech:'', SpReply [Say ''Sorry, there was an error processing your request.'', Hangup]])"
    by (auto simp add: waiting_def speech_on_timeout_def reject_def split: if_splits)
  from r n1 n2 p t show ?thesis by blast
qed

end
